theory Spec2Isabelle
  imports Complex_Main
begin

section \<open>Numbers of the SDK: bn.js integers and decimal.js decimals\<close>

text \<open>
  The SDK computes on three kinds of numbers.  A \<^verbatim>\<open>BN\<close> (bn.js) is an unbounded integer
  and is modelled as \<^typ>\<open>int\<close>; its \<^verbatim>\<open>div\<close> truncates towards zero and asserts that the
  divisor is not zero.  The fee functions take basis points, period counts and durations
  as JavaScript \<^verbatim>\<open>number\<close>s and only compare them or hand them to \<^verbatim>\<open>BN\<close>; these are
  modelled as \<^typ>\<open>int\<close> as well.  Results of double arithmetic (\<^verbatim>\<open>Math.pow\<close>, the
  printed form of a quotient of doubles) enter the model as parameters of the function
  that needs them, and a \<^verbatim>\<open>number\<close> that the code only reads into a \<^verbatim>\<open>Decimal\<close> is the
  decimal it is read as.  A \<^verbatim>\<open>Decimal\<close> (decimal.js, used with its default configuration: 20 significant
  digits, rounding mode ROUND_HALF_UP) is modelled by the datatype \<open>decimal\<close> below.
\<close>

datatype error = Error string

definition bn_tdiv :: "int \<Rightarrow> int \<Rightarrow> int" where
  "bn_tdiv a b = sgn a * sgn b * (\<bar>a\<bar> div \<bar>b\<bar>)"

definition bn_div :: "int \<Rightarrow> int \<Rightarrow> error + int" where
  "bn_div a b = (if b = 0 then Inl (Error ''Assertion failed'') else Inr (bn_tdiv a b))"

definition bn_toNumber :: "int \<Rightarrow> error + int" where
  "bn_toNumber a =
     (if \<bar>a\<bar> < 2 ^ 53 then Inr a
      else Inl (Error ''Number can only safely store up to 53 bits''))"

text \<open>
  Sequencing of computations that may throw: the first error aborts the rest, as the
  exception does in the source.
\<close>

definition bind_err :: "error + 'a \<Rightarrow> ('a \<Rightarrow> error + 'b) \<Rightarrow> error + 'b" where
  "bind_err r f = (case r of Inl e \<Rightarrow> Inl e | Inr v \<Rightarrow> f v)"

subsection \<open>decimal.js\<close>

text \<open>
  \<open>Fin s m e\<close> is the finite decimal \<open>(if s then -1 else 1) * m * 10 ^ e\<close>; the sign is kept
  for zero too, as decimal.js does.  \<open>Inf s\<close> is the signed infinity and \<open>NaN\<close> is not a
  number.  The constructor keeps every digit it is given; each arithmetic operation rounds
  its exact result to 20 significant digits, ties away from zero.
\<close>

datatype decimal = Fin bool nat int | Inf bool | NaN

text \<open>
  \<open>ndigits n\<close> is the number of decimal digits of \<open>n\<close>, zero for \<open>n = 0\<close>: the loop
  compares \<open>n\<close> with the powers of ten \<open>p\<close> and counts them in \<open>acc\<close>.
\<close>

function ndigits_from :: "int \<Rightarrow> nat \<Rightarrow> nat \<Rightarrow> int" where
  "ndigits_from acc p n =
     (if n < p \<or> p = 0 then acc else ndigits_from (acc + 1) (p * 10) n)"
  by pat_completeness auto
termination
  by (relation "measure (\<lambda>(acc, p, n). n + 1 - p)") auto

declare ndigits_from.simps [simp del]

definition ndigits :: "nat \<Rightarrow> nat" where
  "ndigits n = nat (ndigits_from 0 1 n)"

definition PRECISION :: nat where
  "PRECISION = 20"

definition round_to :: "bool \<Rightarrow> nat \<Rightarrow> int \<Rightarrow> nat \<Rightarrow> decimal" where
  "round_to s m e d =
     (if d \<le> PRECISION then Fin s m e
      else Fin s ((m + 5 * 10 ^ (d - PRECISION - 1)) div 10 ^ (d - PRECISION))
             (e + int (d - PRECISION)))"

definition finalise :: "bool \<Rightarrow> nat \<Rightarrow> int \<Rightarrow> decimal" where
  "finalise s m e = round_to s m e (ndigits m)"

definition isqrt_step :: "nat \<Rightarrow> nat \<Rightarrow> nat" where
  "isqrt_step n h = (if (2 * h + 1) * (2 * h + 1) \<le> n then 2 * h + 1 else 2 * h)"

fun isqrt :: "nat \<Rightarrow> nat" where
  "isqrt n = (if n < 2 then n else isqrt_step n (isqrt (n div 4)))"

declare isqrt.simps [simp del]

definition Decimal_ofBN :: "int \<Rightarrow> decimal" where
  "Decimal_ofBN i = Fin (i < 0) (nat \<bar>i\<bar>) 0"

fun Decimal_isNeg :: "decimal \<Rightarrow> bool" where
  "Decimal_isNeg (Fin s m e) = s"
| "Decimal_isNeg (Inf s) = s"
| "Decimal_isNeg NaN = False"

fun Decimal_mul :: "decimal \<Rightarrow> decimal \<Rightarrow> decimal" where
  "Decimal_mul NaN y = NaN"
| "Decimal_mul x NaN = NaN"
| "Decimal_mul (Inf s) (Inf t) = Inf (s \<noteq> t)"
| "Decimal_mul (Inf s) (Fin t n f) = (if n = 0 then NaN else Inf (s \<noteq> t))"
| "Decimal_mul (Fin s m e) (Inf t) = (if m = 0 then NaN else Inf (s \<noteq> t))"
| "Decimal_mul (Fin s m e) (Fin t n f) =
     (if m = 0 \<or> n = 0 then Fin (s \<noteq> t) 0 0 else finalise (s \<noteq> t) (m * n) (e + f))"

text \<open>
  The quotient of two coefficients is computed to at least 21 digits, by scaling the
  dividend with \<open>10 ^ k\<close>; rounding the truncated quotient half-up rounds the exact one.
\<close>

definition div_scaled :: "bool \<Rightarrow> nat \<Rightarrow> int \<Rightarrow> nat \<Rightarrow> int \<Rightarrow> nat \<Rightarrow> decimal" where
  "div_scaled s m e n f k = finalise s ((m * 10 ^ k) div n) (e - f - int k)"

fun Decimal_div :: "decimal \<Rightarrow> decimal \<Rightarrow> decimal" where
  "Decimal_div NaN y = NaN"
| "Decimal_div x NaN = NaN"
| "Decimal_div (Inf s) (Inf t) = NaN"
| "Decimal_div (Inf s) (Fin t n f) = Inf (s \<noteq> t)"
| "Decimal_div (Fin s m e) (Inf t) = Fin (s \<noteq> t) 0 0"
| "Decimal_div (Fin s m e) (Fin t n f) =
     (if m = 0 \<and> n = 0 then NaN
      else if m = 0 then Fin (s \<noteq> t) 0 0
      else if n = 0 then Inf (s \<noteq> t)
      else div_scaled (s \<noteq> t) m e n f ((PRECISION + 1 + ndigits n) - ndigits m))"

text \<open>
  Addition and subtraction follow the dispatch of decimal.js: operands of different sign
  are handed to the other operation with the second operand negated, and the sign of a
  zero result is the one decimal.js produces under ROUND_HALF_UP.
\<close>

definition align :: "nat \<Rightarrow> int \<Rightarrow> int \<Rightarrow> nat" where
  "align m e e0 = m * 10 ^ nat (e - e0)"

definition plus_same :: "bool \<Rightarrow> nat \<Rightarrow> int \<Rightarrow> nat \<Rightarrow> int \<Rightarrow> decimal" where
  "plus_same s m e n f =
     (if n = 0 then finalise s m e
      else if m = 0 then finalise s n f
      else finalise s (align m e (min e f) + align n f (min e f)) (min e f))"

definition minus_aligned :: "bool \<Rightarrow> nat \<Rightarrow> nat \<Rightarrow> int \<Rightarrow> decimal" where
  "minus_aligned s a b e0 =
     (if a = b then Fin False 0 0
      else if b < a then finalise s (a - b) e0
      else finalise (\<not> s) (b - a) e0)"

definition minus_same :: "bool \<Rightarrow> nat \<Rightarrow> int \<Rightarrow> nat \<Rightarrow> int \<Rightarrow> decimal" where
  "minus_same s m e n f =
     (if n \<noteq> 0 \<and> m = 0 then finalise (\<not> s) n f
      else if n = 0 \<and> m \<noteq> 0 then finalise s m e
      else if n = 0 \<and> m = 0 then Fin False 0 0
      else minus_aligned s (align m e (min e f)) (align n f (min e f)) (min e f))"

fun Decimal_add :: "decimal \<Rightarrow> decimal \<Rightarrow> decimal" where
  "Decimal_add NaN y = NaN"
| "Decimal_add x NaN = NaN"
| "Decimal_add (Inf s) (Inf t) = (if s = t then Inf s else NaN)"
| "Decimal_add (Inf s) (Fin t n f) = Inf s"
| "Decimal_add (Fin s m e) (Inf t) = Inf t"
| "Decimal_add (Fin s m e) (Fin t n f) =
     (if s = t then plus_same s m e n f else minus_same s m e n f)"

fun Decimal_sub :: "decimal \<Rightarrow> decimal \<Rightarrow> decimal" where
  "Decimal_sub NaN y = NaN"
| "Decimal_sub x NaN = NaN"
| "Decimal_sub (Inf s) (Inf t) = (if s \<noteq> t then Inf s else NaN)"
| "Decimal_sub (Inf s) (Fin t n f) = Inf s"
| "Decimal_sub (Fin s m e) (Inf t) = Inf (\<not> t)"
| "Decimal_sub (Fin s m e) (Fin t n f) =
     (if s = t then minus_same s m e n f else plus_same s m e n f)"

text \<open>
  The square root is correctly rounded: the coefficient is scaled by a power of ten that
  leaves an even exponent and at least 43 digits, so that the integer square root has at
  least 22 digits and rounding its truncation half-up rounds the exact root.
\<close>

definition even_shift :: "int \<Rightarrow> nat \<Rightarrow> nat" where
  "even_shift e k = (if even (e - int k) then k else k + 1)"

definition sqrt_scaled :: "nat \<Rightarrow> int \<Rightarrow> nat \<Rightarrow> decimal" where
  "sqrt_scaled m e k = finalise False (isqrt (m * 10 ^ k)) ((e - int k) div 2)"

fun Decimal_sqrt :: "decimal \<Rightarrow> decimal" where
  "Decimal_sqrt NaN = NaN"
| "Decimal_sqrt (Inf s) = (if s then NaN else Inf False)"
| "Decimal_sqrt (Fin s m e) =
     (if m = 0 then Fin s 0 e
      else if s then NaN
      else sqrt_scaled m e (even_shift e ((2 * PRECISION + 3) - ndigits m)))"

definition floor_frac :: "bool \<Rightarrow> nat \<Rightarrow> nat \<Rightarrow> decimal" where
  "floor_frac s m p = Fin s (if s \<and> m mod p \<noteq> 0 then m div p + 1 else m div p) 0"

fun Decimal_floor :: "decimal \<Rightarrow> decimal" where
  "Decimal_floor (Fin s m e) = (if 0 \<le> e then Fin s m e else floor_frac s m (10 ^ nat (- e)))"
| "Decimal_floor x = x"

text \<open>
  \<open>Decimal_pow x n\<close> is \<^verbatim>\<open>x.pow(n)\<close> for an integer exponent whose exact power has fewer
  than 43 digits, which is where decimal.js computes the power exactly before rounding
  it; the SDK functions modelled here raise 2 and 10 to such powers only.  A negative
  exponent divides one by the unrounded positive power.
\<close>

fun Decimal_pow :: "decimal \<Rightarrow> int \<Rightarrow> decimal" where
  "Decimal_pow (Fin s m e) n =
     (if 0 \<le> n then finalise (s \<and> odd n) (m ^ nat n) (e * n)
      else Decimal_div (Fin False 1 0) (Fin (s \<and> odd n) (m ^ nat (- n)) (e * (- n))))"
| "Decimal_pow x n = NaN"

text \<open>
  \<^verbatim>\<open>new BN(d.toFixed())\<close> for a decimal that \<^verbatim>\<open>floor()\<close> has made an integer: bn.js parses
  the digits, and rejects the strings \<^verbatim>\<open>Infinity\<close> and \<^verbatim>\<open>NaN\<close> as well as a fraction.
\<close>

fun Decimal_toBN :: "decimal \<Rightarrow> error + int" where
  "Decimal_toBN (Fin s m e) =
     (if 0 \<le> e then Inr ((if s then - 1 else 1) * int (m * 10 ^ nat e))
      else if m mod 10 ^ nat (- e) = 0
      then Inr ((if s then - 1 else 1) * int (m div 10 ^ nat (- e)))
      else Inl (Error ''Invalid character''))"
| "Decimal_toBN x = Inl (Error ''Invalid character'')"

fun Decimal_toRat :: "decimal \<Rightarrow> rat" where
  "Decimal_toRat (Fin s m e) =
     (if s then - 1 else 1) *
     (if 0 \<le> e then of_nat (m * 10 ^ nat e) else of_nat m / of_nat (10 ^ nat (- e)))"
| "Decimal_toRat x = 0"

fun Decimal_isFinite :: "decimal \<Rightarrow> bool" where
  "Decimal_isFinite (Fin s m e) = True"
| "Decimal_isFinite x = False"

text \<open>
  The equations of the operations are used on request only, so that a proof about an SDK
  function does not unfold the decimal arithmetic it calls.
\<close>

declare Decimal_mul.simps [simp del] Decimal_div.simps [simp del] Decimal_add.simps [simp del]
  Decimal_sub.simps [simp del] Decimal_sqrt.simps [simp del] Decimal_floor.simps [simp del]
  Decimal_pow.simps [simp del] Decimal_toBN.simps [simp del] Decimal_toRat.simps [simp del]

lemmas Decimal_eval =
  Decimal_mul.simps Decimal_div.simps Decimal_add.simps Decimal_sub.simps Decimal_sqrt.simps
  Decimal_floor.simps Decimal_pow.simps Decimal_toBN.simps Decimal_toRat.simps
  plus_same_def minus_same_def minus_aligned_def align_def Decimal_ofBN_def
  div_scaled_def sqrt_scaled_def even_shift_def floor_frac_def round_to_def
  finalise_def PRECISION_def ndigits_def ndigits_from.simps isqrt.simps isqrt_step_def

section \<open>Types and constants\<close>

datatype ActivationType = Slot | Timestamp
datatype CollectFeeMode = QuoteToken | OutputToken
datatype DammV2DynamicFeeMode = Disabled | Enabled
datatype MigrationOption = MET_DAMM | MET_DAMM_V2 | NO_MIGRATION
datatype BaseFeeMode = FeeSchedulerLinear | FeeSchedulerExponential | RateLimiter
datatype MigrationFeeOption =
  FixedBps25 | FixedBps30 | FixedBps100 | FixedBps200 | FixedBps400 | FixedBps600 | Customizable
datatype TokenDecimal = SIX | SEVEN | EIGHT | NINE
datatype Rounding = Up | Down

fun decimals :: "TokenDecimal \<Rightarrow> nat" where
  "decimals SIX = 6"
| "decimals SEVEN = 7"
| "decimals EIGHT = 8"
| "decimals NINE = 9"

definition MIN_SQRT_PRICE :: int where "MIN_SQRT_PRICE = 4295048016"
definition MAX_SQRT_PRICE :: int where "MAX_SQRT_PRICE = 79226673521066979257578248091"
definition ONE_Q64 :: int where "ONE_Q64 = 2 ^ 64"
definition FEE_DENOMINATOR :: int where "FEE_DENOMINATOR = 1000000000"
definition MAX_FEE_BPS :: int where "MAX_FEE_BPS = 9900"
definition MIN_FEE_NUMERATOR :: int where "MIN_FEE_NUMERATOR = 2500000"
definition MAX_FEE_NUMERATOR :: int where "MAX_FEE_NUMERATOR = 990000000"
definition BASIS_POINT_MAX :: int where "BASIS_POINT_MAX = 10000"
definition SWAP_BUFFER_PERCENTAGE :: int where "SWAP_BUFFER_PERCENTAGE = 25"
definition MAX_RATE_LIMITER_DURATION_IN_SECONDS :: int where
  "MAX_RATE_LIMITER_DURATION_IN_SECONDS = 43200"
definition MAX_RATE_LIMITER_DURATION_IN_SLOTS :: int where
  "MAX_RATE_LIMITER_DURATION_IN_SLOTS = 108000"
definition DYNAMIC_FEE_FILTER_PERIOD_DEFAULT :: int where "DYNAMIC_FEE_FILTER_PERIOD_DEFAULT = 10"
definition DYNAMIC_FEE_DECAY_PERIOD_DEFAULT :: int where "DYNAMIC_FEE_DECAY_PERIOD_DEFAULT = 120"
definition DYNAMIC_FEE_REDUCTION_FACTOR_DEFAULT :: int where
  "DYNAMIC_FEE_REDUCTION_FACTOR_DEFAULT = 5000"
definition DYNAMIC_FEE_SCALING_FACTOR :: int where "DYNAMIC_FEE_SCALING_FACTOR = 100000000000"
definition DYNAMIC_FEE_ROUNDING_OFFSET :: int where "DYNAMIC_FEE_ROUNDING_OFFSET = 99999999999"
definition BIN_STEP_BPS_DEFAULT :: int where "BIN_STEP_BPS_DEFAULT = 1"
definition BIN_STEP_BPS_U128_DEFAULT :: int where "BIN_STEP_BPS_U128_DEFAULT = 1844674407370955"
definition MAX_PRICE_CHANGE_BPS_DEFAULT :: int where "MAX_PRICE_CHANGE_BPS_DEFAULT = 1500"

record LiquidityDistributionParameters =
  sqrtPrice :: int
  liquidity :: int

record LockedVestingParameters =
  amountPerPeriod :: int
  cliffDurationFromMigrationTime :: int
  frequency :: int
  numberOfPeriod :: int
  cliffUnlockAmount :: int

record BaseFee =
  cliffFeeNumerator :: int
  firstFactor :: int
  secondFactor :: int
  thirdFactor :: int
  baseFeeMode :: BaseFeeMode

record DynamicFeeParameters =
  binStep :: int
  binStepU128 :: int
  filterPeriod :: int
  decayPeriod :: int
  reductionFactor :: int
  maxVolatilityAccumulator :: int
  variableFeeControl :: int

record MigratedPoolFee =
  collectFeeMode :: nat
  dynamicFee :: nat
  poolFeeBps :: int

section \<open>Helpers of utils.ts\<close>

text \<open>
  Modelled from the spec: \<^verbatim>\<open>utils.ts\<close> (\<^verbatim>\<open>convertToLamports\<close>, \<^verbatim>\<open>fromDecimalToBN\<close>,
  \<^verbatim>\<open>bpsToFeeNumerator\<close>) is not among the sources.  An amount of whole tokens is converted
  to the token's integer unit by scaling it with the token decimals; a decimal is
  truncated to fixed-width integers by \<^verbatim>\<open>floor\<close>; a fee in basis points (of
  \<open>BASIS_POINT_MAX\<close>) is the same fraction of \<open>FEE_DENOMINATOR\<close>, as the constants
  \<open>MAX_FEE_BPS\<close> and \<open>MAX_FEE_NUMERATOR\<close> (both 99%) show.
\<close>

definition convertToLamports :: "int \<Rightarrow> nat \<Rightarrow> int" where
  "convertToLamports amount tokenDecimal = amount * 10 ^ tokenDecimal"

definition fromDecimalToBN :: "decimal \<Rightarrow> error + int" where
  "fromDecimalToBN v = Decimal_toBN (Decimal_floor v)"

definition bpsToFeeNumerator :: "int \<Rightarrow> int" where
  "bpsToFeeNumerator bps = bn_tdiv (bps * FEE_DENOMINATOR) BASIS_POINT_MAX"

section \<open>common.ts\<close>

subsection \<open>Prices and square-root prices\<close>

text \<open>
  A square-root price is a Q64.64 value held in a \<^verbatim>\<open>BN\<close>.  \<open>getPriceFromSqrtPrice\<close> squares
  it, divides by \<open>2 ^ 128\<close> and scales the result by the power of ten that the token
  decimals differ by.
\<close>

definition getPriceFromSqrtPrice :: "int \<Rightarrow> TokenDecimal \<Rightarrow> TokenDecimal \<Rightarrow> decimal" where
  "getPriceFromSqrtPrice sqrtPriceQ64 tokenBaseDecimal tokenQuoteDecimal =
     (let sqrtPriceDecimal = Decimal_ofBN sqrtPriceQ64;
          lamportPrice =
            Decimal_div (Decimal_mul sqrtPriceDecimal sqrtPriceDecimal)
              (Decimal_pow (Fin False 2 0) 128)
      in Decimal_mul lamportPrice
           (Decimal_pow (Fin False 10 0)
              (int (decimals tokenBaseDecimal) - int (decimals tokenQuoteDecimal))))"

text \<open>
  \<open>getSqrtPriceFromPrice\<close> takes the price as a string, which \<^verbatim>\<open>new Decimal\<close> reads digit
  by digit: \<open>price\<close> is the decimal that the string denotes.  The divisor
  \<^verbatim>\<open>new Decimal(10 ** (tokenADecimal - tokenBDecimal))\<close> is a power of ten computed in
  double arithmetic: \<open>decimalFactor\<close> is the decimal read from that double, which is 1
  when the two tokens have the same number of decimals.
\<close>

definition getSqrtPriceFromPrice :: "decimal \<Rightarrow> decimal \<Rightarrow> error + int" where
  "getSqrtPriceFromPrice price decimalFactor =
     (let adjustedByDecimals = Decimal_div price decimalFactor;
          sqrtValue = Decimal_sqrt adjustedByDecimals;
          sqrtValueQ64 = Decimal_mul sqrtValue (Decimal_pow (Fin False 2 0) 64)
      in Decimal_toBN (Decimal_floor sqrtValueQ64))"

subsection \<open>Vesting\<close>

definition getTotalVestingAmount :: "LockedVestingParameters \<Rightarrow> int" where
  "getTotalVestingAmount lockedVesting =
     cliffUnlockAmount lockedVesting + amountPerPeriod lockedVesting * numberOfPeriod lockedVesting"

subsection \<open>Rate limiter window\<close>

definition checkRateLimiterApplied :: "BaseFeeMode \<Rightarrow> bool \<Rightarrow> int \<Rightarrow> int \<Rightarrow> int \<Rightarrow> bool" where
  "checkRateLimiterApplied mode swapBaseForQuote currentPoint activationPoint maxLimiterDuration =
     (mode = RateLimiter \<and> \<not> swapBaseForQuote \<and> currentPoint \<ge> activationPoint \<and>
      currentPoint \<le> activationPoint + maxLimiterDuration)"

subsection \<open>Fee split of the migrated pool\<close>

definition defaultFeeParams :: MigratedPoolFee where
  "defaultFeeParams = \<lparr>collectFeeMode = 0, dynamicFee = 0, poolFeeBps = 0\<rparr>"

text \<open>
  The third argument is optional in the source; the customizable branch returns it as it
  was passed, \<^verbatim>\<open>undefined\<close> included, so argument and result are options.
\<close>

definition getMigratedPoolFeeParams ::
  "MigrationOption \<Rightarrow> MigrationFeeOption \<Rightarrow> MigratedPoolFee option \<Rightarrow> MigratedPoolFee option" where
  "getMigratedPoolFeeParams migrationOption migrationFeeOption migratedPoolFee =
     (if migrationOption = MET_DAMM then Some defaultFeeParams
      else if migrationOption = MET_DAMM_V2 then
        (if migrationFeeOption = Customizable then migratedPoolFee else Some defaultFeeParams)
      else Some defaultFeeParams)"

subsection \<open>Base fee parameters\<close>

record RateLimiterParam =
  baseFeeBps :: int
  feeIncrementBps :: int
  referenceAmount :: int
  maxLimiterDuration :: int

record FeeSchedulerParam =
  startingFeeBps :: int
  endingFeeBps :: int
  schedulerNumberOfPeriod :: int
  totalDuration :: int

record BaseFeeParams =
  paramBaseFeeMode :: BaseFeeMode
  rateLimiterParam :: "RateLimiterParam option"
  feeSchedulerParam :: "FeeSchedulerParam option"

text \<open>
  The exponential scheduler derives its reduction factor in double arithmetic,
  \<^verbatim>\<open>new BN(BASIS_POINT_MAX * (1 - Math.pow(min / max, 1 / numberOfPeriod)))\<close>; that value
  is the parameter \<open>expReduction\<close>, applied to the minimum numerator, the maximum numerator
  and the number of periods.
\<close>

definition getFeeSchedulerParams ::
  "(int \<Rightarrow> int \<Rightarrow> int \<Rightarrow> error + int) \<Rightarrow> int \<Rightarrow> int \<Rightarrow> BaseFeeMode \<Rightarrow> int \<Rightarrow> int
   \<Rightarrow> error + BaseFee" where
  "getFeeSchedulerParams expReduction startingBaseFeeBps endingBaseFeeBps mode periods duration =
     (if startingBaseFeeBps = endingBaseFeeBps then
        (if periods \<noteq> 0 \<or> duration \<noteq> 0 then
           Inl (Error ''numberOfPeriod and totalDuration must both be zero'')
         else
           Inr \<lparr>cliffFeeNumerator = bpsToFeeNumerator startingBaseFeeBps, firstFactor = 0,
                secondFactor = 0, thirdFactor = 0, baseFeeMode = FeeSchedulerLinear\<rparr>)
      else if periods \<le> 0 then Inl (Error ''Total periods must be greater than zero'')
      else if startingBaseFeeBps > MAX_FEE_BPS then
        Inl (Error ''startingBaseFeeBps exceeds maximum allowed value'')
      else if endingBaseFeeBps > startingBaseFeeBps then
        Inl (Error ''endingBaseFeeBps bps must be less than or equal to startingBaseFeeBps bps'')
      else if periods = 0 \<or> duration = 0 then
        Inl (Error ''numberOfPeriod and totalDuration must both greater than zero'')
      else
        let maxBaseFeeNumerator = bpsToFeeNumerator startingBaseFeeBps;
            minBaseFeeNumerator = bpsToFeeNumerator endingBaseFeeBps;
            periodFrequency = bn_tdiv duration periods
        in bind_err
             (if mode = FeeSchedulerLinear then
                (let totalReduction = maxBaseFeeNumerator - minBaseFeeNumerator
                 in Inr (bn_tdiv totalReduction periods))
              else expReduction minBaseFeeNumerator maxBaseFeeNumerator periods)
             (\<lambda>reduction.
                Inr \<lparr>cliffFeeNumerator = maxBaseFeeNumerator, firstFactor = periods,
                     secondFactor = periodFrequency, thirdFactor = reduction,
                     baseFeeMode = mode\<rparr>))"

definition getRateLimiterParams ::
  "int \<Rightarrow> int \<Rightarrow> int \<Rightarrow> int \<Rightarrow> TokenDecimal \<Rightarrow> ActivationType \<Rightarrow> error + BaseFee" where
  "getRateLimiterParams feeBps incrementBps refAmount limiterDuration tokenQuoteDecimal
       activationType =
     (let cliff = bpsToFeeNumerator feeBps;
          feeIncrementNumerator = bpsToFeeNumerator incrementBps
      in if feeBps \<le> 0 \<or> incrementBps \<le> 0 \<or> refAmount \<le> 0 \<or> limiterDuration \<le> 0 then
           Inl (Error ''All rate limiter parameters must be greater than zero'')
         else if feeBps > MAX_FEE_BPS then
           Inl (Error ''Base fee exceeds maximum allowed value'')
         else if incrementBps > MAX_FEE_BPS then
           Inl (Error ''Fee increment exceeds maximum allowed value'')
         else if feeIncrementNumerator \<ge> FEE_DENOMINATOR then
           Inl (Error ''Fee increment numerator must be less than FEE_DENOMINATOR'')
         else
           let deltaNumerator = MAX_FEE_NUMERATOR - cliff
           in bind_err (bn_div deltaNumerator feeIncrementNumerator)
                (\<lambda>maxIndex.
                   if maxIndex < 1 then
                     Inl (Error ''Fee increment is too large for the given base fee'')
                   else if cliff < MIN_FEE_NUMERATOR \<or> cliff > MAX_FEE_NUMERATOR then
                     Inl (Error ''Base fee must be between 0.01% and 99%'')
                   else
                     let maxDuration =
                           (if activationType = Slot then MAX_RATE_LIMITER_DURATION_IN_SLOTS
                            else MAX_RATE_LIMITER_DURATION_IN_SECONDS)
                     in if limiterDuration > maxDuration then
                          Inl (Error ''Max duration exceeds maximum allowed value'')
                        else
                          let referenceAmountInLamports =
                                convertToLamports refAmount (decimals tokenQuoteDecimal)
                          in Inr \<lparr>cliffFeeNumerator = cliff, firstFactor = incrementBps,
                                  secondFactor = limiterDuration,
                                  thirdFactor = referenceAmountInLamports,
                                  baseFeeMode = RateLimiter\<rparr>))"

definition getBaseFeeParams ::
  "(int \<Rightarrow> int \<Rightarrow> int \<Rightarrow> error + int) \<Rightarrow> BaseFeeParams \<Rightarrow> TokenDecimal \<Rightarrow> ActivationType
   \<Rightarrow> error + BaseFee" where
  "getBaseFeeParams expReduction baseFeeParams tokenQuoteDecimal activationType =
     (if paramBaseFeeMode baseFeeParams = RateLimiter then
        (case rateLimiterParam baseFeeParams of
           None \<Rightarrow> Inl (Error ''Rate limiter parameters are required for RateLimiter mode'')
         | Some r \<Rightarrow>
             getRateLimiterParams (baseFeeBps r) (feeIncrementBps r) (referenceAmount r)
               (maxLimiterDuration r) tokenQuoteDecimal activationType)
      else
        (case feeSchedulerParam baseFeeParams of
           None \<Rightarrow> Inl (Error ''Fee scheduler parameters are required for FeeScheduler mode'')
         | Some f \<Rightarrow>
             getFeeSchedulerParams expReduction (startingFeeBps f) (endingFeeBps f)
               (paramBaseFeeMode baseFeeParams) (schedulerNumberOfPeriod f) (totalDuration f)))"

subsection \<open>Dynamic fee parameters\<close>

text \<open>
  \<^verbatim>\<open>priceRatio\<close> is the double \<^verbatim>\<open>maxPriceChangeBps / BASIS_POINT_MAX + 1\<close>, and the source
  hands its printed form to \<^verbatim>\<open>Decimal.sqrt\<close>; the parameter \<open>priceRatio\<close> gives the decimal
  that is read back from that string.
\<close>

definition getDynamicFeeParams ::
  "(int \<Rightarrow> decimal) \<Rightarrow> int \<Rightarrow> int \<Rightarrow> error + DynamicFeeParameters" where
  "getDynamicFeeParams priceRatio feeBps maxPriceChangeBps =
     (if maxPriceChangeBps > MAX_PRICE_CHANGE_BPS_DEFAULT then
        Inl (Error ''maxPriceChangeBps must be less than or equal to 1500'')
      else
        bind_err
          (Decimal_toBN (Decimal_floor
             (Decimal_mul (Decimal_sqrt (priceRatio maxPriceChangeBps))
                (Decimal_pow (Fin False 2 0) 64))))
          (\<lambda>sqrtPriceRatioQ64.
        bind_err (bn_div (sqrtPriceRatioQ64 - ONE_Q64) BIN_STEP_BPS_U128_DEFAULT)
          (\<lambda>binDelta.
        let deltaBinId = binDelta * 2;
            maxVolatility = deltaBinId * BASIS_POINT_MAX;
            squareVfaBin = (maxVolatility * BIN_STEP_BPS_DEFAULT) ^ 2;
            baseFeeNumerator = bpsToFeeNumerator feeBps;
            maxDynamicFeeNumerator = bn_tdiv (baseFeeNumerator * 20) 100;
            vFee = maxDynamicFeeNumerator * 100000000000 - 99999999999
        in bind_err (bn_div vFee squareVfaBin)
          (\<lambda>feeControl.
        bind_err (bn_toNumber maxVolatility)
          (\<lambda>maxVolatilityNumber.
        bind_err (bn_toNumber feeControl)
          (\<lambda>feeControlNumber.
             Inr \<lparr>binStep = BIN_STEP_BPS_DEFAULT,
                  binStepU128 = BIN_STEP_BPS_U128_DEFAULT,
                  filterPeriod = DYNAMIC_FEE_FILTER_PERIOD_DEFAULT,
                  decayPeriod = DYNAMIC_FEE_DECAY_PERIOD_DEFAULT,
                  reductionFactor = DYNAMIC_FEE_REDUCTION_FACTOR_DEFAULT,
                  maxVolatilityAccumulator = maxVolatilityNumber,
                  variableFeeControl = feeControlNumber\<rparr>))))))"

text \<open>
  The surcharge that the parameters allow at most: the variable fee control times the
  square of the volatility ceiling times the bin step, scaled down by
  \<open>DYNAMIC_FEE_SCALING_FACTOR\<close> after adding \<open>DYNAMIC_FEE_ROUNDING_OFFSET\<close>, the rounding
  that the subtraction of 99,999,999,999 in \<open>getDynamicFeeParams\<close> anticipates.
\<close>

definition maxDynamicFeeSurcharge :: "DynamicFeeParameters \<Rightarrow> int" where
  "maxDynamicFeeSurcharge p =
     (variableFeeControl p * (maxVolatilityAccumulator p * binStep p) ^ 2
        + DYNAMIC_FEE_ROUNDING_OFFSET) div DYNAMIC_FEE_SCALING_FACTOR"

subsection \<open>Tokenomics\<close>

record Tokenomics =
  bondingCurveSupply :: int
  migrationSupply :: int
  leftoverSupply :: int
  lockedVestingSupply :: int

definition getTokenomics ::
  "decimal \<Rightarrow> decimal \<Rightarrow> int \<Rightarrow> int \<Rightarrow> int \<Rightarrow> error + Tokenomics" where
  "getTokenomics initialMarketCap migrationMarketCap totalLockedVestingAmount totalLeftover
       totalTokenSupply =
     (let marketCapRatio = Decimal_div initialMarketCap migrationMarketCap;
          sqrtRatio = Decimal_sqrt marketCapRatio;
          vestingPercentage =
            Decimal_div (Decimal_mul (Decimal_ofBN totalLockedVestingAmount) (Fin False 100 0))
              (Decimal_ofBN totalTokenSupply);
          leftoverPercentage =
            Decimal_div (Decimal_mul (Decimal_ofBN totalLeftover) (Fin False 100 0))
              (Decimal_ofBN totalTokenSupply);
          percentageSupplyOnMigration =
            Decimal_sub (Decimal_mul (Fin False 100 0) sqrtRatio)
              (Decimal_mul (Decimal_add vestingPercentage leftoverPercentage) sqrtRatio);
          denominator = Decimal_add (Fin False 1 0) sqrtRatio;
          migrationSupplyDecimal =
            Decimal_div
              (Decimal_mul (Decimal_div percentageSupplyOnMigration denominator)
                 (Decimal_ofBN totalTokenSupply))
              (Fin False 100 0)
      in bind_err (Decimal_toBN (Decimal_floor migrationSupplyDecimal))
           (\<lambda>migration.
              let bondingCurve =
                    totalTokenSupply - migration - totalLeftover - totalLockedVestingAmount
              in Inr \<lparr>bondingCurveSupply = bondingCurve, migrationSupply = migration,
                      leftoverSupply = totalLeftover,
                      lockedVestingSupply = totalLockedVestingAmount\<rparr>))"

section \<open>Curves\<close>

type_synonym Curve = "LiquidityDistributionParameters list"

subsection \<open>The curve math kernel\<close>

text \<open>
  \<^verbatim>\<open>math/curve.ts\<close> is not among the sources.  The functions that \<^verbatim>\<open>common.ts\<close> and
  \<^verbatim>\<open>buildCurve.ts\<close> import from it are the fields of the record \<open>CurveMath\<close>, and every
  function that calls one of them takes the record as its first argument; each may throw.
\<close>

record CurveMath =
  getDeltaAmountBaseUnsigned :: "int \<Rightarrow> int \<Rightarrow> int \<Rightarrow> Rounding \<Rightarrow> error + int"
  getDeltaAmountQuoteUnsigned :: "int \<Rightarrow> int \<Rightarrow> int \<Rightarrow> Rounding \<Rightarrow> error + int"
  getInitialLiquidityFromDeltaBase :: "int \<Rightarrow> int \<Rightarrow> int \<Rightarrow> error + int"
  getInitialLiquidityFromDeltaQuote :: "int \<Rightarrow> int \<Rightarrow> int \<Rightarrow> error + int"
  getNextSqrtPriceFromInput :: "int \<Rightarrow> int \<Rightarrow> int \<Rightarrow> bool \<Rightarrow> error + int"

text \<open>
  Modelled from the spec: the kernel of \<^verbatim>\<open>math/curve.ts\<close>, which is not among the sources.
  The base amount across an interval is \<open>liquidity * (1/lower - 1/upper)\<close> and the quote
  amount is \<open>liquidity * (upper - lower)\<close>, each rounded up or down as the caller asks;
  the next price for a quote input solves the quote relation for the upper bound, the
  one for a base input solves the base relation for the lower bound; the initial
  liquidity is the inverse sizing of the same two relations.  Square-root prices are
  Q64.64 values, so the quote relation carries the factor \<open>2 ^ 128\<close>, as the equations in
  \<open>getTwoCurve\<close> and \<open>getMigrationBaseToken\<close> have it.  Equal bounds, where the inverse
  sizing has no solution, and a vanishing price or liquidity, where a price is asked
  for, are rejected with an error.
\<close>

definition divRound :: "int \<Rightarrow> int \<Rightarrow> Rounding \<Rightarrow> int" where
  "divRound n d r = (if r = Up then - ((- n) div d) else n div d)"

definition deltaBase :: "int \<Rightarrow> int \<Rightarrow> int \<Rightarrow> Rounding \<Rightarrow> error + int" where
  "deltaBase lower upper liq r =
     (if lower * upper = 0 then Inl (Error ''Sqrt price cannot be zero'')
      else Inr (divRound (liq * (upper - lower)) (lower * upper) r))"

definition deltaQuote :: "int \<Rightarrow> int \<Rightarrow> int \<Rightarrow> Rounding \<Rightarrow> error + int" where
  "deltaQuote lower upper liq r = Inr (divRound (liq * (upper - lower)) (2 ^ 128) r)"

definition initialLiquidityFromDeltaBase :: "int \<Rightarrow> int \<Rightarrow> int \<Rightarrow> error + int" where
  "initialLiquidityFromDeltaBase baseAmount sqrtMaxPrice sqrtPrice0 =
     (if sqrtMaxPrice = sqrtPrice0 then Inl (Error ''Price range is empty'')
      else Inr ((baseAmount * sqrtPrice0 * sqrtMaxPrice) div (sqrtMaxPrice - sqrtPrice0)))"

definition initialLiquidityFromDeltaQuote :: "int \<Rightarrow> int \<Rightarrow> int \<Rightarrow> error + int" where
  "initialLiquidityFromDeltaQuote quoteAmount sqrtMinPrice sqrtPrice0 =
     (if sqrtPrice0 = sqrtMinPrice then Inl (Error ''Price range is empty'')
      else Inr ((quoteAmount * 2 ^ 128) div (sqrtPrice0 - sqrtMinPrice)))"

definition nextSqrtPriceFromInput :: "int \<Rightarrow> int \<Rightarrow> int \<Rightarrow> bool \<Rightarrow> error + int" where
  "nextSqrtPriceFromInput sqrtPrice0 liq amountIn baseForQuote =
     (if sqrtPrice0 = 0 \<or> liq = 0 then Inl (Error ''Price or liquidity cannot be zero'')
      else if baseForQuote then
        (if liq + amountIn * sqrtPrice0 = 0 then Inl (Error ''Division by zero'')
         else Inr (divRound (liq * sqrtPrice0) (liq + amountIn * sqrtPrice0) Up))
      else Inr (sqrtPrice0 + (amountIn * 2 ^ 128) div liq))"

definition curveMath :: CurveMath where
  "curveMath =
     \<lparr>getDeltaAmountBaseUnsigned = deltaBase,
      getDeltaAmountQuoteUnsigned = deltaQuote,
      getInitialLiquidityFromDeltaBase = initialLiquidityFromDeltaBase,
      getInitialLiquidityFromDeltaQuote = initialLiquidityFromDeltaQuote,
      getNextSqrtPriceFromInput = nextSqrtPriceFromInput\<rparr>"

subsection \<open>Supply reconstructed from a curve\<close>

text \<open>
  The loop of \<open>getBaseTokenForSwap\<close>: \<open>lower\<close> is the upper price of the previous segment
  (the start price for the first one) and \<open>acc\<close> the amount accumulated so far; the
  segment that reaches beyond the migration price ends the loop.
\<close>

fun baseTokenLoop :: "CurveMath \<Rightarrow> int \<Rightarrow> int \<Rightarrow> int \<Rightarrow> Curve \<Rightarrow> error + int" where
  "baseTokenLoop K lower sqrtMigrationPrice acc [] = Inr acc"
| "baseTokenLoop K lower sqrtMigrationPrice acc (c # cs) =
     (if sqrtPrice c > sqrtMigrationPrice then
        bind_err (getDeltaAmountBaseUnsigned K lower sqrtMigrationPrice (liquidity c) Up)
          (\<lambda>deltaAmount. Inr (acc + deltaAmount))
      else
        bind_err (getDeltaAmountBaseUnsigned K lower (sqrtPrice c) (liquidity c) Up)
          (\<lambda>deltaAmount.
             baseTokenLoop K (sqrtPrice c) sqrtMigrationPrice (acc + deltaAmount) cs))"

definition getBaseTokenForSwap :: "CurveMath \<Rightarrow> int \<Rightarrow> int \<Rightarrow> Curve \<Rightarrow> error + int" where
  "getBaseTokenForSwap K sqrtStart sqrtMigrationPrice segments =
     baseTokenLoop K sqrtStart sqrtMigrationPrice 0 segments"

definition getMigrationQuoteAmountFromMigrationQuoteThreshold :: "decimal \<Rightarrow> decimal \<Rightarrow> decimal" where
  "getMigrationQuoteAmountFromMigrationQuoteThreshold migrationQuoteThreshold migrationFeePercent =
     Decimal_div
       (Decimal_mul migrationQuoteThreshold
          (Decimal_sub (Fin False 100 0) migrationFeePercent))
       (Fin False 100 0)"

definition getMigrationQuoteThresholdFromMigrationQuoteAmount :: "decimal \<Rightarrow> decimal \<Rightarrow> decimal" where
  "getMigrationQuoteThresholdFromMigrationQuoteAmount migrationQuoteAmount migrationFeePercent =
     Decimal_div (Decimal_mul migrationQuoteAmount (Fin False 100 0))
       (Decimal_sub (Fin False 100 0) migrationFeePercent)"

definition getMigrationBaseToken ::
  "CurveMath \<Rightarrow> int \<Rightarrow> int \<Rightarrow> MigrationOption \<Rightarrow> error + int" where
  "getMigrationBaseToken K migrationQuoteAmount sqrtMigrationPrice migrationOption =
     (if migrationOption = MET_DAMM then
        (let price = sqrtMigrationPrice * sqrtMigrationPrice;
             quote = migrationQuoteAmount * 2 ^ 128
         in bind_err (bn_div quote price)
              (\<lambda>baseDiv. Inr (if quote - baseDiv * price \<noteq> 0 then baseDiv + 1 else baseDiv)))
      else
        bind_err (getInitialLiquidityFromDeltaQuote K migrationQuoteAmount MIN_SQRT_PRICE
                    sqrtMigrationPrice)
          (\<lambda>liq. getDeltaAmountBaseUnsigned K sqrtMigrationPrice MAX_SQRT_PRICE liq Up))"

text \<open>
  The loop of \<open>getMigrationThresholdPrice\<close> over the segments after the first: it returns
  the price reached and the amount that is left.
\<close>

fun thresholdLoop :: "CurveMath \<Rightarrow> int \<Rightarrow> int \<Rightarrow> Curve \<Rightarrow> error + int \<times> int" where
  "thresholdLoop K nextSqrtPrice amountLeft [] = Inr (nextSqrtPrice, amountLeft)"
| "thresholdLoop K nextSqrtPrice amountLeft (c # cs) =
     bind_err (getDeltaAmountQuoteUnsigned K nextSqrtPrice (sqrtPrice c) (liquidity c) Up)
       (\<lambda>maxAmount.
          if maxAmount > amountLeft then
            bind_err (getNextSqrtPriceFromInput K nextSqrtPrice (liquidity c) amountLeft False)
              (\<lambda>reached. Inr (reached, 0))
          else thresholdLoop K (sqrtPrice c) (amountLeft - maxAmount) cs)"

fun getMigrationThresholdPrice :: "CurveMath \<Rightarrow> int \<Rightarrow> int \<Rightarrow> Curve \<Rightarrow> error + int" where
  "getMigrationThresholdPrice K migrationThreshold sqrtStart [] = Inl (Error ''Curve is empty'')"
| "getMigrationThresholdPrice K migrationThreshold sqrtStart (c # cs) =
     bind_err (getDeltaAmountQuoteUnsigned K sqrtStart (sqrtPrice c) (liquidity c) Up)
       (\<lambda>totalAmount.
          if totalAmount > migrationThreshold then
            getNextSqrtPriceFromInput K sqrtStart (liquidity c) migrationThreshold False
          else
            bind_err (thresholdLoop K (sqrtPrice c) (migrationThreshold - totalAmount) cs)
              (\<lambda>(nextSqrtPrice, amountLeft).
                 if amountLeft \<noteq> 0 then Inl (Error ''Not enough liquidity'')
                 else Inr nextSqrtPrice))"

definition getSwapAmountWithBuffer :: "CurveMath \<Rightarrow> int \<Rightarrow> int \<Rightarrow> Curve \<Rightarrow> error + int" where
  "getSwapAmountWithBuffer K swapBaseAmount sqrtStart segments =
     (let swapAmountBuffer =
            swapBaseAmount + bn_tdiv (swapBaseAmount * SWAP_BUFFER_PERCENTAGE) 100
      in bind_err (getBaseTokenForSwap K sqrtStart MAX_SQRT_PRICE segments)
           (\<lambda>maxBaseAmountOnCurve. Inr (min swapAmountBuffer maxBaseAmountOnCurve)))"

definition getTotalSupplyFromCurve ::
  "CurveMath \<Rightarrow> int \<Rightarrow> int \<Rightarrow> Curve \<Rightarrow> LockedVestingParameters \<Rightarrow> MigrationOption \<Rightarrow> int
   \<Rightarrow> decimal \<Rightarrow> error + int" where
  "getTotalSupplyFromCurve K migrationQuoteThreshold sqrtStart segments lockedVesting
       migrationOption leftover migrationFeePercent =
     bind_err (getMigrationThresholdPrice K migrationQuoteThreshold sqrtStart segments)
       (\<lambda>sqrtMigrationPrice.
     bind_err (getBaseTokenForSwap K sqrtStart sqrtMigrationPrice segments)
       (\<lambda>swapBaseAmount.
     bind_err (getSwapAmountWithBuffer K swapBaseAmount sqrtStart segments)
       (\<lambda>swapBaseAmountBuffer.
     bind_err (fromDecimalToBN
                 (getMigrationQuoteAmountFromMigrationQuoteThreshold
                    (Decimal_ofBN migrationQuoteThreshold) migrationFeePercent))
       (\<lambda>migrationQuoteAmount.
     bind_err (getMigrationBaseToken K migrationQuoteAmount sqrtMigrationPrice migrationOption)
       (\<lambda>migrationBaseAmount.
          Inr (swapBaseAmountBuffer + migrationBaseAmount + getTotalVestingAmount lockedVesting
               + leftover))))))"

subsection \<open>Solving for segments\<close>

record CurveShape =
  sqrtStartPrice :: int
  curve :: Curve

record TwoCurveResult = CurveShape +
  isOk :: bool

definition getLiquidity :: "CurveMath \<Rightarrow> int \<Rightarrow> int \<Rightarrow> int \<Rightarrow> int \<Rightarrow> error + int" where
  "getLiquidity K baseAmount quoteAmount minSqrtPrice maxSqrtPrice =
     bind_err (getInitialLiquidityFromDeltaBase K baseAmount maxSqrtPrice minSqrtPrice)
       (\<lambda>liquidityFromBase.
     bind_err (getInitialLiquidityFromDeltaQuote K quoteAmount minSqrtPrice maxSqrtPrice)
       (\<lambda>liquidityFromQuote. Inr (min liquidityFromBase liquidityFromQuote)))"

definition getFirstCurve ::
  "CurveMath \<Rightarrow> int \<Rightarrow> int \<Rightarrow> int \<Rightarrow> int \<Rightarrow> decimal \<Rightarrow> error + CurveShape" where
  "getFirstCurve K migrationSqrtPrice migrationBaseAmount swapAmount migrationQuoteThreshold
       migrationFeePercent =
     (let denominator =
            Decimal_div
              (Decimal_mul (Decimal_ofBN swapAmount)
                 (Decimal_sub (Fin False 100 0) migrationFeePercent))
              (Fin False 100 0);
          sqrtStartPriceDecimal =
            Decimal_div
              (Decimal_mul (Decimal_ofBN migrationSqrtPrice) (Decimal_ofBN migrationBaseAmount))
              denominator
      in bind_err (Decimal_toBN (Decimal_floor sqrtStartPriceDecimal))
           (\<lambda>start.
         bind_err (getLiquidity K swapAmount migrationQuoteThreshold start migrationSqrtPrice)
           (\<lambda>liq.
              Inr \<lparr>sqrtStartPrice = start,
                   curve = [\<lparr>sqrtPrice = migrationSqrtPrice, liquidity = liq\<rparr>]\<rparr>)))"

text \<open>
  The two liquidity values that \<open>getTwoCurve\<close> solves for, from the start price \<open>p0\<close>, the
  mid price \<open>p1\<close> and the migration price \<open>p2\<close>.
\<close>

definition getTwoCurve_l0 :: "int \<Rightarrow> int \<Rightarrow> int \<Rightarrow> int \<Rightarrow> int \<Rightarrow> decimal" where
  "getTwoCurve_l0 migrationSqrtPrice midSqrtPrice initialSqrtPrice swapAmount
       migrationQuoteThreshold =
     (let p0 = Decimal_ofBN initialSqrtPrice;
          p1 = Decimal_ofBN midSqrtPrice;
          p2 = Decimal_ofBN migrationSqrtPrice;
          a1 = Decimal_sub (Decimal_div (Fin False 1 0) p0) (Decimal_div (Fin False 1 0) p1);
          b1 = Decimal_sub (Decimal_div (Fin False 1 0) p1) (Decimal_div (Fin False 1 0) p2);
          c1 = Decimal_ofBN swapAmount;
          a2 = Decimal_sub p1 p0;
          b2 = Decimal_sub p2 p1;
          c2 = Decimal_mul (Decimal_ofBN migrationQuoteThreshold) (Decimal_pow (Fin False 2 0) 128)
      in Decimal_div (Decimal_sub (Decimal_mul c1 b2) (Decimal_mul c2 b1))
           (Decimal_sub (Decimal_mul a1 b2) (Decimal_mul a2 b1)))"

definition getTwoCurve_l1 :: "int \<Rightarrow> int \<Rightarrow> int \<Rightarrow> int \<Rightarrow> int \<Rightarrow> decimal" where
  "getTwoCurve_l1 migrationSqrtPrice midSqrtPrice initialSqrtPrice swapAmount
       migrationQuoteThreshold =
     (let p0 = Decimal_ofBN initialSqrtPrice;
          p1 = Decimal_ofBN midSqrtPrice;
          p2 = Decimal_ofBN migrationSqrtPrice;
          a1 = Decimal_sub (Decimal_div (Fin False 1 0) p0) (Decimal_div (Fin False 1 0) p1);
          b1 = Decimal_sub (Decimal_div (Fin False 1 0) p1) (Decimal_div (Fin False 1 0) p2);
          c1 = Decimal_ofBN swapAmount;
          a2 = Decimal_sub p1 p0;
          b2 = Decimal_sub p2 p1;
          c2 = Decimal_mul (Decimal_ofBN migrationQuoteThreshold) (Decimal_pow (Fin False 2 0) 128)
      in Decimal_div (Decimal_sub (Decimal_mul c1 a2) (Decimal_mul c2 a1))
           (Decimal_sub (Decimal_mul b1 a2) (Decimal_mul b2 a1)))"

definition getTwoCurve :: "int \<Rightarrow> int \<Rightarrow> int \<Rightarrow> int \<Rightarrow> int \<Rightarrow> error + TwoCurveResult" where
  "getTwoCurve migrationSqrtPrice midSqrtPrice initialSqrtPrice swapAmount migrationQuoteThreshold =
     (let l0 = getTwoCurve_l0 migrationSqrtPrice midSqrtPrice initialSqrtPrice swapAmount
                 migrationQuoteThreshold;
          l1 = getTwoCurve_l1 migrationSqrtPrice midSqrtPrice initialSqrtPrice swapAmount
                 migrationQuoteThreshold
      in if Decimal_isNeg l0 \<or> Decimal_isNeg l1 then
           Inr \<lparr>sqrtStartPrice = 0, curve = [], isOk = False\<rparr>
         else
           bind_err (Decimal_toBN (Decimal_floor l0))
             (\<lambda>liquidity0.
           bind_err (Decimal_toBN (Decimal_floor l1))
             (\<lambda>liquidity1.
                Inr \<lparr>sqrtStartPrice = initialSqrtPrice,
                     curve = [\<lparr>sqrtPrice = midSqrtPrice, liquidity = liquidity0\<rparr>,
                              \<lparr>sqrtPrice = migrationSqrtPrice, liquidity = liquidity1\<rparr>],
                     isOk = True\<rparr>)))"

text \<open>
  The condition under which \<open>getTwoCurve\<close> gives up: one of the two solved liquidity
  values is negative.
\<close>

abbreviation infeasible :: "int \<Rightarrow> int \<Rightarrow> int \<Rightarrow> int \<Rightarrow> int \<Rightarrow> bool" where
  "infeasible migrationSqrtPrice midSqrtPrice initialSqrtPrice swapAmount threshold \<equiv>
     Decimal_isNeg (getTwoCurve_l0 migrationSqrtPrice midSqrtPrice initialSqrtPrice swapAmount threshold)
     \<or> Decimal_isNeg (getTwoCurve_l1 migrationSqrtPrice midSqrtPrice initialSqrtPrice swapAmount threshold)"

section \<open>The curve construction of buildCurve.ts\<close>

text \<open>
  Each build function first converts its launch parameters to integer token units and
  square-root prices, in decimal and double arithmetic, and copies most of them to the
  configuration it returns.  The functions below are the construction proper: they start
  from the converted values (total supply, leftover and migration quote amounts in
  integer units, the initial and the migration square-root price) and return what the
  construction contributes to the configuration: the start price, the curve and the
  migration quote threshold.  \<^verbatim>\<open>Decimal.pow\<close> with the exponents 3, 0.25 and 1/16 is the
  parameter \<open>pw\<close>.
\<close>

record ConfigCurve = CurveShape +
  migrationQuoteThreshold :: int

definition buildCurve ::
  "CurveMath \<Rightarrow> int \<Rightarrow> int \<Rightarrow> int \<Rightarrow> int \<Rightarrow> LockedVestingParameters \<Rightarrow> MigrationOption \<Rightarrow> int
   \<Rightarrow> decimal \<Rightarrow> error + ConfigCurve" where
  "buildCurve K totalSupply migrateSqrtPrice migrationQuoteAmountInLamport
       migrationQuoteThresholdInLamport lockedVesting migrationOption totalLeftover
       migrationFeePercent =
     bind_err (getMigrationBaseToken K migrationQuoteAmountInLamport migrateSqrtPrice
                 migrationOption)
       (\<lambda>migrationBaseAmount.
     let totalVestingAmount = getTotalVestingAmount lockedVesting;
         swapAmount = totalSupply - migrationBaseAmount - totalVestingAmount - totalLeftover
     in
     bind_err (getFirstCurve K migrateSqrtPrice migrationBaseAmount swapAmount
                 migrationQuoteThresholdInLamport migrationFeePercent)
       (\<lambda>first.
     bind_err (getTotalSupplyFromCurve K migrationQuoteThresholdInLamport (sqrtStartPrice first)
                 (curve first) lockedVesting migrationOption totalLeftover migrationFeePercent)
       (\<lambda>totalDynamicSupply.
     let remainingAmount = totalSupply - totalDynamicSupply in
     bind_err (getInitialLiquidityFromDeltaBase K remainingAmount MAX_SQRT_PRICE
                 migrateSqrtPrice)
       (\<lambda>lastLiquidity.
          Inr \<lparr>sqrtStartPrice = sqrtStartPrice first,
               curve = (if lastLiquidity \<noteq> 0
                        then curve first
                               @ [\<lparr>sqrtPrice = MAX_SQRT_PRICE, liquidity = lastLiquidity\<rparr>]
                        else curve first),
               migrationQuoteThreshold = migrationQuoteThresholdInLamport\<rparr>))))"

text \<open>
  The candidate mid prices of \<open>buildCurveWithTwoSegments\<close>, in the order in which the
  loop tries them: \<open>(p1^3 * p2)^(1/4)\<close>, \<open>(p1 * p2^3)^(1/4)\<close> and \<open>sqrt (p1 * p2)\<close>.
\<close>

definition midSqrtPrices ::
  "(decimal \<Rightarrow> decimal \<Rightarrow> decimal) \<Rightarrow> int \<Rightarrow> int \<Rightarrow> error + int list" where
  "midSqrtPrices pw migrateSqrtPrice initialSqrtPrice =
     bind_err (Decimal_toBN (Decimal_floor (Decimal_sqrt
                 (Decimal_mul (Decimal_ofBN migrateSqrtPrice) (Decimal_ofBN initialSqrtPrice)))))
       (\<lambda>midSqrtPrice1.
     bind_err (Decimal_toBN (Decimal_floor
                 (pw (Decimal_mul (Decimal_ofBN initialSqrtPrice)
                        (pw (Decimal_ofBN migrateSqrtPrice) (Fin False 3 0)))
                    (Fin False 25 (- 2)))))
       (\<lambda>midSqrtPrice2.
     bind_err (Decimal_toBN (Decimal_floor
                 (pw (Decimal_mul (pw (Decimal_ofBN initialSqrtPrice) (Fin False 3 0))
                        (Decimal_ofBN migrateSqrtPrice))
                    (Fin False 25 (- 2)))))
       (\<lambda>midSqrtPrice3. Inr [midSqrtPrice3, midSqrtPrice2, midSqrtPrice1])))"

fun tryMidPrices :: "int \<Rightarrow> int \<Rightarrow> int \<Rightarrow> int \<Rightarrow> int list \<Rightarrow> error + CurveShape" where
  "tryMidPrices migrateSqrtPrice initialSqrtPrice swapAmount threshold [] =
     Inr \<lparr>sqrtStartPrice = 0, curve = []\<rparr>"
| "tryMidPrices migrateSqrtPrice initialSqrtPrice swapAmount threshold (m # ms) =
     bind_err (getTwoCurve migrateSqrtPrice m initialSqrtPrice swapAmount threshold)
       (\<lambda>result.
          if isOk result then
            Inr \<lparr>sqrtStartPrice = sqrtStartPrice result, curve = curve result\<rparr>
          else tryMidPrices migrateSqrtPrice initialSqrtPrice swapAmount threshold ms)"

definition buildCurveWithTwoSegments ::
  "CurveMath \<Rightarrow> (decimal \<Rightarrow> decimal \<Rightarrow> decimal) \<Rightarrow> int \<Rightarrow> int \<Rightarrow> int \<Rightarrow> int \<Rightarrow> int
   \<Rightarrow> LockedVestingParameters \<Rightarrow> MigrationOption \<Rightarrow> int \<Rightarrow> decimal \<Rightarrow> error + ConfigCurve" where
  "buildCurveWithTwoSegments K pw totalSupply migrateSqrtPrice initialSqrtPrice
       migrationQuoteAmountInLamport migrationQuoteThresholdInLamport lockedVesting
       migrationOption totalLeftover migrationFeePercent =
     bind_err (getMigrationBaseToken K migrationQuoteAmountInLamport migrateSqrtPrice
                 migrationOption)
       (\<lambda>migrationBaseAmount.
     let totalVestingAmount = getTotalVestingAmount lockedVesting;
         swapAmount = totalSupply - migrationBaseAmount - totalVestingAmount - totalLeftover
     in
     bind_err (midSqrtPrices pw migrateSqrtPrice initialSqrtPrice)
       (\<lambda>midPrices.
     bind_err (tryMidPrices migrateSqrtPrice initialSqrtPrice swapAmount
                 migrationQuoteThresholdInLamport midPrices)
       (\<lambda>shape.
     bind_err (getTotalSupplyFromCurve K migrationQuoteThresholdInLamport (sqrtStartPrice shape)
                 (curve shape) lockedVesting migrationOption totalLeftover migrationFeePercent)
       (\<lambda>totalDynamicSupply.
          if totalDynamicSupply > totalSupply
             \<and> \<not> (totalDynamicSupply - totalSupply < totalLeftover)
          then Inl (Error ''leftOverDelta must be less than totalLeftover'')
          else Inr \<lparr>sqrtStartPrice = sqrtStartPrice shape, curve = curve shape,
                    migrationQuoteThreshold = migrationQuoteThresholdInLamport\<rparr>))))"







section \<open>Sample inputs\<close>

text \<open>
  Values for the examples below: a launch without locked vesting, and a power function
  for the parameter \<open>pw\<close> that computes the cube by two multiplications, the fourth root
  by two square roots and the sixteenth root by four.
\<close>

definition noVesting :: LockedVestingParameters where
  "noVesting = \<lparr>amountPerPeriod = 0, cliffDurationFromMigrationTime = 0, frequency = 0,
      numberOfPeriod = 0, cliffUnlockAmount = 0\<rparr>"

definition samplePow :: "decimal \<Rightarrow> decimal \<Rightarrow> decimal" where
  "samplePow x y =
     (if y = Fin False 3 0 then Decimal_mul (Decimal_mul x x) x
      else if y = Fin False 25 (- 2) then Decimal_sqrt (Decimal_sqrt x)
      else Decimal_sqrt (Decimal_sqrt (Decimal_sqrt (Decimal_sqrt x))))"

section \<open>Auxiliary facts\<close>

lemma bn_tdiv_nonneg: "0 \<le> a \<Longrightarrow> 0 < b \<Longrightarrow> bn_tdiv a b = a div b"
  by (cases "a = 0") (simp_all add: bn_tdiv_def)

lemma bn_tdiv_neg: "a < 0 \<Longrightarrow> 0 < b \<Longrightarrow> bn_tdiv a b = - ((- a) div b)"
  by (simp add: bn_tdiv_def)

lemma bind_err_Inr: "bind_err r f = Inr v \<longleftrightarrow> (\<exists>u. r = Inr u \<and> f u = Inr v)"
  by (cases r) (simp_all add: bind_err_def)

lemma bn_div_Inr: "bn_div a b = Inr q \<longleftrightarrow> b \<noteq> 0 \<and> q = bn_tdiv a b"
  by (auto simp: bn_div_def)

lemma bn_toNumber_Inr: "bn_toNumber a = Inr n \<Longrightarrow> n = a"
  by (simp add: bn_toNumber_def split: if_splits)

text \<open>
  The arithmetic core of the dynamic fee: for a base numerator \<open>base\<close> and a positive
  square \<open>sq\<close>, the control value solved by truncating division, multiplied back and
  scaled down with rounding up, stays within a fifth of \<open>base\<close>.
\<close>

lemma surcharge_bound:
  fixes base sq :: int
  assumes "0 \<le> base" "0 < sq"
  shows "100 * ((bn_tdiv (bn_tdiv (base * 20) 100 * 100000000000 - 99999999999) sq * sq
            + 99999999999) div 100000000000) \<le> 20 * base"
proof -
  define d where "d = bn_tdiv (base * 20) 100"
  have d: "d = (base * 20) div 100" using assms by (simp add: d_def bn_tdiv_nonneg)
  have d100: "100 * d \<le> 20 * base" unfolding d by (simp add: mult.commute)
  define v where "v = d * 100000000000 - 99999999999"
  show ?thesis
  proof (cases "0 \<le> v")
    case True
    then have "bn_tdiv v sq = v div sq" using assms by (simp add: bn_tdiv_nonneg)
    moreover have "v div sq * sq = v - v mod sq" by (simp add: minus_mod_eq_div_mult)
    then have "v div sq * sq \<le> v" using assms by simp
    ultimately have "(bn_tdiv v sq * sq + 99999999999) div 100000000000
                     \<le> (v + 99999999999) div 100000000000"
      by (intro zdiv_mono1) simp_all
    also have "\<dots> = d" by (simp add: v_def)
    finally show ?thesis using d100 unfolding v_def d_def by linarith
  next
    case False
    then have neg: "v < 0" by simp
    then have t: "bn_tdiv v sq = - ((- v) div sq)" using assms by (simp add: bn_tdiv_neg)
    have "0 \<le> (- v) div sq" using neg assms by (simp add: pos_imp_zdiv_nonneg_iff)
    then have "bn_tdiv v sq * sq \<le> 0" using assms unfolding t
      by (simp add: mult_le_0_iff)
    then have "(bn_tdiv v sq * sq + 99999999999) div 100000000000
                \<le> (0 + 99999999999) div (100000000000::int)"
      by (intro zdiv_mono1) simp_all
    then have "(bn_tdiv v sq * sq + 99999999999) div 100000000000 \<le> 0" by simp
    then show ?thesis using assms unfolding v_def d_def by linarith
  qed
qed

text \<open>
  The rate limiter checks its cliff numerator against both protocol bounds before it
  returns.
\<close>

lemma getRateLimiterParams_cliff_bounds:
  assumes "getRateLimiterParams feeBps incrementBps refAmount limiterDuration tokenQuoteDecimal
             activationType = Inr fee"
  shows "MIN_FEE_NUMERATOR \<le> cliffFeeNumerator fee \<and> cliffFeeNumerator fee \<le> MAX_FEE_NUMERATOR"
  using assms
  by (auto simp: getRateLimiterParams_def bind_err_Inr Let_def split: if_splits)

lemma getTwoCurve_failed_iff:
  "getTwoCurve mig mid init swap th = Inr \<lparr>sqrtStartPrice = 0, curve = [], isOk = False\<rparr>
   \<longleftrightarrow> infeasible mig mid init swap th"
  by (auto simp: getTwoCurve_def Let_def bind_err_Inr)

lemma getTwoCurve_Inr:
  assumes "getTwoCurve mig mid init swap th = Inr r"
  shows "isOk r = (\<not> infeasible mig mid init swap th)"
    and "isOk r \<Longrightarrow> sqrtStartPrice r = init \<and> length (curve r) = 2"
  using assms by (auto simp: getTwoCurve_def Let_def bind_err_Inr split: if_splits)

lemma midSqrtPrices_three:
  assumes "midSqrtPrices pw mig init = Inr mids"
  shows "\<exists>m3 m2 m1. mids = [m3, m2, m1]"
  using assms by (auto simp: midSqrtPrices_def bind_err_Inr)

lemma getTotalSupplyFromCurve_empty:
  "getTotalSupplyFromCurve K th start [] lv opt leftover fee = Inl (Error ''Curve is empty'')"
  by (simp add: getTotalSupplyFromCurve_def bind_err_def)

lemma tryMidPrices_three:
  assumes "tryMidPrices mig init swap th [m3, m2, m1] = Inr shape" and "curve shape \<noteq> []"
  shows "if \<not> infeasible mig m3 init swap th then
           getTwoCurve mig m3 init swap th
             = Inr \<lparr>sqrtStartPrice = sqrtStartPrice shape, curve = curve shape, isOk = True\<rparr>
         else if \<not> infeasible mig m2 init swap th then
           getTwoCurve mig m2 init swap th
             = Inr \<lparr>sqrtStartPrice = sqrtStartPrice shape, curve = curve shape, isOk = True\<rparr>
         else \<not> infeasible mig m1 init swap th \<and>
           getTwoCurve mig m1 init swap th
             = Inr \<lparr>sqrtStartPrice = sqrtStartPrice shape, curve = curve shape, isOk = True\<rparr>"
proof -
  have step: "\<And>m r. getTwoCurve mig m init swap th = Inr r \<Longrightarrow> isOk r \<Longrightarrow>
      r = \<lparr>sqrtStartPrice = sqrtStartPrice r, curve = curve r, isOk = True\<rparr>"
    by simp
  show ?thesis
    using assms
    by (auto simp: bind_err_Inr getTwoCurve_Inr(1) split: if_splits dest: step)
qed

subsection \<open>Evaluation\<close>

text \<open>
  The facts with which the examples are evaluated.  The weak congruence rules keep the
  simplifier out of a continuation until the computation before it has returned.
\<close>

lemma bind_err_simps: "bind_err (Inr v) f = f v" "bind_err (Inl e) f = Inl e"
  by (simp_all add: bind_err_def)

lemma bind_err_weak_cong: "r = r' \<Longrightarrow> bind_err r f = bind_err r' f"
  by simp

lemma Let_weak_cong: "a = b \<Longrightarrow> Let a t = Let b t"
  by simp

lemmas kernel_eval = curveMath_def deltaBase_def deltaQuote_def initialLiquidityFromDeltaBase_def
  initialLiquidityFromDeltaQuote_def nextSqrtPriceFromInput_def divRound_def

lemmas curve_eval = getTotalSupplyFromCurve_def getSwapAmountWithBuffer_def getBaseTokenForSwap_def
  getMigrationBaseToken_def getMigrationQuoteAmountFromMigrationQuoteThreshold_def
  getMigrationQuoteThresholdFromMigrationQuoteAmount_def
  getFirstCurve_def getLiquidity_def fromDecimalToBN_def getTotalVestingAmount_def
  bn_div_def bn_tdiv_def MIN_SQRT_PRICE_def MAX_SQRT_PRICE_def SWAP_BUFFER_PERCENTAGE_def
  noVesting_def

lemma getTotalVestingAmount_noVesting: "getTotalVestingAmount noVesting = 0"
  by (simp add: getTotalVestingAmount_def noVesting_def)

subsection \<open>A run of \<open>buildCurve\<close>\<close>

text \<open>
  A supply of \<open>10 ^ 9\<close> tokens with six decimals, of which \<open>10 ^ 4\<close> are left over, and a
  migration threshold of 64 quote tokens with nine decimals, without migration fee.
\<close>

lemma buildCurve_run:
  "buildCurve curveMath 1000000000000000 329985389698847588 64000000000 64000000000 noVesting
     MET_DAMM_V2 10000000000 (Fin False 0 0)
   = Inr \<lparr>sqrtStartPrice = 82497379983738238,
       curve = [\<lparr>sqrtPrice = 329985389698847588, liquidity = 87996471053322678127894993002812\<rparr>,
                \<lparr>sqrtPrice = 79226673521066979257578248091, liquidity = 3434896127926969785642391\<rparr>],
       migrationQuoteThreshold = 64000000000\<rparr>"
  unfolding buildCurve_def
  by (simp add: kernel_eval curve_eval bind_err_simps Let_def Decimal_eval
        cong: bind_err_weak_cong Let_weak_cong)

subsection \<open>A run of the two-segment constructions\<close>

text \<open>
  A supply of \<open>10 ^ 6\<close> tokens with six decimals, an initial square-root price of a tenth
  of \<open>2 ^ 64\<close> and a migration square-root price of four times that, with a migration fee
  of five percent.  The first candidate mid price has a negative solution, the second
  one is adopted.
\<close>

lemma twoSegments_migrationBase:
  "getMigrationBaseToken curveMath 48000000000 7378697629483820646 MET_DAMM_V2 = Inr 300000000147"
  by (simp add: kernel_eval curve_eval bind_err_simps Let_def cong: bind_err_weak_cong Let_weak_cong)

lemma twoSegments_midPrices:
  "midSqrtPrices samplePow 7378697629483820646 1844674407370955161
   = Inr [2608763565066556441, 5217527130133112884, 3689348814741910322]"
  by (simp add: midSqrtPrices_def samplePow_def bind_err_simps Decimal_eval cong: bind_err_weak_cong Let_weak_cong)

lemma twoSegments_first_l0:
  "getTwoCurve_l0 7378697629483820646 2608763565066556441 1844674407370955161 699999999853 50526315789
   = Fin True 16222888914832473627 11"
  by (simp add: getTwoCurve_l0_def Let_def Decimal_eval cong: Let_weak_cong)

lemma twoSegments_second_l0:
  "getTwoCurve_l0 7378697629483820646 5217527130133112884 1844674407370955161 699999999853 50526315789
   = Fin False 96414667489465097232 10"
  by (simp add: getTwoCurve_l0_def Let_def Decimal_eval cong: Let_weak_cong)

lemma twoSegments_second_l1:
  "getTwoCurve_l1 7378697629483820646 5217527130133112884 1844674407370955161 699999999853 50526315789
   = Fin False 64508050591582929828 11"
  by (simp add: getTwoCurve_l1_def Let_def Decimal_eval cong: Let_weak_cong)

lemma twoSegments_first_candidate:
  "getTwoCurve 7378697629483820646 2608763565066556441 1844674407370955161 699999999853 50526315789
   = Inr \<lparr>sqrtStartPrice = 0, curve = [], isOk = False\<rparr>"
  unfolding getTwoCurve_def twoSegments_first_l0 by (simp add: Let_def)

lemma twoSegments_second_candidate:
  "getTwoCurve 7378697629483820646 5217527130133112884 1844674407370955161 699999999853 50526315789
   = Inr \<lparr>sqrtStartPrice = 1844674407370955161,
       curve = [\<lparr>sqrtPrice = 5217527130133112884, liquidity = 964146674894650972320000000000\<rparr>,
                \<lparr>sqrtPrice = 7378697629483820646, liquidity = 6450805059158292982800000000000\<rparr>],
       isOk = True\<rparr>"
  unfolding getTwoCurve_def twoSegments_second_l0 twoSegments_second_l1
  by (simp add: Let_def bind_err_simps Decimal_eval)

lemma twoSegments_supply:
  "getTotalSupplyFromCurve curveMath 50526315789 1844674407370955161
     [\<lparr>sqrtPrice = 5217527130133112884, liquidity = 964146674894650972320000000000\<rparr>,
                \<lparr>sqrtPrice = 7378697629483820646, liquidity = 6450805059158292982800000000000\<rparr>]
     noVesting MET_DAMM_V2 0 (Fin False 5 0) = Inr 999999999996"
  by (simp add: kernel_eval curve_eval bind_err_simps Let_def Decimal_eval
        cong: bind_err_weak_cong Let_weak_cong)

lemma twoSegments_run:
  "buildCurveWithTwoSegments curveMath samplePow 1000000000000 7378697629483820646 1844674407370955161
     48000000000 50526315789 noVesting MET_DAMM_V2 0 (Fin False 5 0)
   = Inr \<lparr>sqrtStartPrice = 1844674407370955161,
       curve = [\<lparr>sqrtPrice = 5217527130133112884, liquidity = 964146674894650972320000000000\<rparr>,
                \<lparr>sqrtPrice = 7378697629483820646, liquidity = 6450805059158292982800000000000\<rparr>],
       migrationQuoteThreshold = 50526315789\<rparr>"
  unfolding buildCurveWithTwoSegments_def twoSegments_migrationBase
  by (simp add: bind_err_simps Let_def twoSegments_midPrices twoSegments_first_candidate
        twoSegments_second_candidate twoSegments_supply getTotalVestingAmount_noVesting)


subsection \<open>A run of \<open>buildCurveWithLiquidityWeights\<close>\<close>




























section \<open>Verified properties\<close>

text \<open>
  C5: \<open>checkRateLimiterApplied\<close> is true if and only if the base fee mode is the rate
  limiter, the trade is quote-to-base (\<open>swapBaseForQuote\<close> is false) and the current
  point lies in the closed interval from the activation point to the activation point
  plus the maximum limiter duration.
\<close>

theorem checkRateLimiterApplied_iff:
  "checkRateLimiterApplied mode swapBaseForQuote currentPoint activationPoint maxDuration
   = (mode = RateLimiter \<and> swapBaseForQuote = False \<and>
      currentPoint \<in> {activationPoint .. activationPoint + maxDuration})"
  by (simp add: checkRateLimiterApplied_def)

text \<open>
  C9: \<open>getMigratedPoolFeeParams\<close> returns the default fee split (all three fields zero)
  for every combination of migration option and fee option, whatever fee split the
  caller supplied and without an error, except for DAMM v2 with the customizable fee
  option, where it returns the caller's argument unchanged.
\<close>

theorem getMigratedPoolFeeParams_cases:
  "getMigratedPoolFeeParams migrationOption migrationFeeOption migratedPoolFee =
     (if migrationOption = MET_DAMM_V2 \<and> migrationFeeOption = Customizable then migratedPoolFee
      else Some \<lparr>collectFeeMode = 0, dynamicFee = 0, poolFeeBps = 0\<rparr>)"
  by (simp add: getMigratedPoolFeeParams_def defaultFeeParams_def)

theorem getMigratedPoolFeeParams_cases_witness:
  "getMigratedPoolFeeParams MET_DAMM_V2 Customizable
       (Some \<lparr>collectFeeMode = 1, dynamicFee = 1, poolFeeBps = 250\<rparr>)
     = Some \<lparr>collectFeeMode = 1, dynamicFee = 1, poolFeeBps = 250\<rparr>
   \<and> getMigratedPoolFeeParams MET_DAMM_V2 FixedBps25
       (Some \<lparr>collectFeeMode = 1, dynamicFee = 1, poolFeeBps = 250\<rparr>)
     = Some \<lparr>collectFeeMode = 0, dynamicFee = 0, poolFeeBps = 0\<rparr>
   \<and> getMigratedPoolFeeParams NO_MIGRATION Customizable
       (Some \<lparr>collectFeeMode = 1, dynamicFee = 1, poolFeeBps = 250\<rparr>)
     = Some \<lparr>collectFeeMode = 0, dynamicFee = 0, poolFeeBps = 0\<rparr>"
  using getMigratedPoolFeeParams_cases [of MET_DAMM_V2 Customizable
          "Some \<lparr>collectFeeMode = 1, dynamicFee = 1, poolFeeBps = 250\<rparr>"]
        getMigratedPoolFeeParams_cases [of MET_DAMM_V2 FixedBps25
          "Some \<lparr>collectFeeMode = 1, dynamicFee = 1, poolFeeBps = 250\<rparr>"]
        getMigratedPoolFeeParams_cases [of NO_MIGRATION Customizable
          "Some \<lparr>collectFeeMode = 1, dynamicFee = 1, poolFeeBps = 250\<rparr>"]
  by simp

text \<open>
  C3: whenever \<open>getTokenomics\<close> returns, the bonding curve supply, the migration supply,
  the leftover supply and the locked vesting supply add up to the total token supply
  exactly, in integer token units; in particular for a positive total supply with
  vesting and leftover amounts below it.
\<close>

theorem getTokenomics_conserves_supply:
  assumes "getTokenomics initialMarketCap migrationMarketCap totalLockedVestingAmount
             totalLeftover totalTokenSupply = Inr t"
  shows "bondingCurveSupply t + migrationSupply t + leftoverSupply t + lockedVestingSupply t
         = totalTokenSupply"
  using assms by (auto simp: getTokenomics_def bind_err_Inr Let_def)

theorem getTokenomics_conserves_supply_witness:
  "getTokenomics (Fin False 30 0) (Fin False 300 0) 100000000 50000000 1000000000000000
     = Inr \<lparr>bondingCurveSupply = 759746812685919, migrationSupply = 240253037314081,
            leftoverSupply = 50000000, lockedVestingSupply = 100000000\<rparr>
   \<and> 759746812685919 + 240253037314081 + 50000000 + 100000000 = (1000000000000000 :: int)"
proof -
  have run: "getTokenomics (Fin False 30 0) (Fin False 300 0) 100000000 50000000 1000000000000000
     = Inr \<lparr>bondingCurveSupply = 759746812685919, migrationSupply = 240253037314081,
            leftoverSupply = 50000000, lockedVestingSupply = 100000000\<rparr>"
    by (simp add: getTokenomics_def Let_def bind_err_def Decimal_eval)
  from getTokenomics_conserves_supply [OF run] run show ?thesis by simp
qed

text \<open>
  C4: the cliff fee numerator of a returned base fee is meant to lie between
  \<open>MIN_FEE_NUMERATOR\<close> and \<open>MAX_FEE_NUMERATOR\<close>.  The fee scheduler does not ensure it:
  with equal starting and ending fee of 10000 basis points and no periods, the flat-fee
  branch returns the numerator 1,000,000,000 before the check against \<open>MAX_FEE_BPS\<close>
  that the decaying branch makes; and a decaying schedule that starts at 10 basis points
  returns the numerator 1,000,000, below the minimum that the rate limiter enforces.
\<close>

theorem getBaseFeeParams_scheduler_cliff_out_of_bounds:
  "getBaseFeeParams (\<lambda>lo hi n. Inr 0)
     \<lparr>paramBaseFeeMode = FeeSchedulerLinear, rateLimiterParam = None,
      feeSchedulerParam = Some \<lparr>startingFeeBps = 10000, endingFeeBps = 10000,
                                schedulerNumberOfPeriod = 0, totalDuration = 0\<rparr>\<rparr> SIX Slot
     = Inr \<lparr>cliffFeeNumerator = 1000000000, firstFactor = 0, secondFactor = 0,
            thirdFactor = 0, baseFeeMode = FeeSchedulerLinear\<rparr>
   \<and> MAX_FEE_NUMERATOR < 1000000000
   \<and> getBaseFeeParams (\<lambda>lo hi n. Inr 0)
     \<lparr>paramBaseFeeMode = FeeSchedulerLinear, rateLimiterParam = None,
      feeSchedulerParam = Some \<lparr>startingFeeBps = 10, endingFeeBps = 5,
                                schedulerNumberOfPeriod = 5, totalDuration = 600\<rparr>\<rparr> SIX Slot
     = Inr \<lparr>cliffFeeNumerator = 1000000, firstFactor = 5, secondFactor = 120,
            thirdFactor = 100000, baseFeeMode = FeeSchedulerLinear\<rparr>
   \<and> 1000000 < MIN_FEE_NUMERATOR"
  by (simp add: getBaseFeeParams_def getFeeSchedulerParams_def bpsToFeeNumerator_def
        bn_tdiv_def bind_err_def FEE_DENOMINATOR_def BASIS_POINT_MAX_def MAX_FEE_BPS_def
        MAX_FEE_NUMERATOR_def MIN_FEE_NUMERATOR_def)

text \<open>
  C7: for the parameters that \<open>getDynamicFeeParams\<close> returns for a non-negative base fee,
  the variable fee control times the square of the volatility ceiling times the bin step,
  scaled down by 100,000,000,000 with the rounding offset, is at most 20% of the base fee
  numerator.
\<close>

theorem getDynamicFeeParams_surcharge_bound:
  assumes "getDynamicFeeParams priceRatio feeBps maxPriceChangeBps = Inr p"
    and "0 \<le> feeBps"
  shows "100 * maxDynamicFeeSurcharge p \<le> 20 * bpsToFeeNumerator feeBps"
proof -
  have base: "0 \<le> bpsToFeeNumerator feeBps"
    using assms(2)
    by (simp add: bpsToFeeNumerator_def bn_tdiv_nonneg FEE_DENOMINATOR_def BASIS_POINT_MAX_def)
  from assms(1) obtain b :: int where
    sq: "(b * 2 * BASIS_POINT_MAX * BIN_STEP_BPS_DEFAULT) ^ 2 \<noteq> 0"
    and p: "maxVolatilityAccumulator p = b * 2 * BASIS_POINT_MAX" "binStep p = BIN_STEP_BPS_DEFAULT"
      "variableFeeControl p =
         bn_tdiv (bn_tdiv (bpsToFeeNumerator feeBps * 20) 100 * 100000000000 - 99999999999)
           ((b * 2 * BASIS_POINT_MAX * BIN_STEP_BPS_DEFAULT) ^ 2)"
    by (auto simp: getDynamicFeeParams_def bind_err_Inr bn_div_Inr Let_def
          dest!: bn_toNumber_Inr split: if_splits)
  have pos: "0 < (b * 2 * BASIS_POINT_MAX * BIN_STEP_BPS_DEFAULT) ^ 2"
    using sq by (metis zero_le_power2 order_le_less)
  show ?thesis
    unfolding maxDynamicFeeSurcharge_def p DYNAMIC_FEE_ROUNDING_OFFSET_def
      DYNAMIC_FEE_SCALING_FACTOR_def
    using surcharge_bound [OF base pos] by simp
qed

theorem getDynamicFeeParams_surcharge_bound_witness:
  "getDynamicFeeParams (\<lambda>bps. Fin False (nat (10000 + bps)) (- 4)) 100 1500
     = Inr \<lparr>binStep = 1, binStepU128 = 1844674407370955, filterPeriod = 10,
            decayPeriod = 120, reductionFactor = 5000,
            maxVolatilityAccumulator = 14460000, variableFeeControl = 956\<rparr>
   \<and> (0::int) \<le> 100
   \<and> 100 * maxDynamicFeeSurcharge
             \<lparr>binStep = 1, binStepU128 = 1844674407370955, filterPeriod = 10,
              decayPeriod = 120, reductionFactor = 5000,
              maxVolatilityAccumulator = 14460000, variableFeeControl = 956\<rparr>
       \<le> 20 * bpsToFeeNumerator 100"
proof -
  have root: "Decimal_sqrt (Fin False 11500 (- 4)) = Fin False 10723805294763608305 (- 19)"
    by (simp add: Decimal_eval)
  have q64: "Decimal_toBN (Decimal_floor (Decimal_mul (Fin False 10723805294763608305 (- 19))
               (Decimal_pow (Fin False 2 0) 64))) = Inr 19781929176879570281"
    by (simp add: Decimal_eval)
  have run: "getDynamicFeeParams (\<lambda>bps. Fin False (nat (10000 + bps)) (- 4)) 100 1500
     = Inr \<lparr>binStep = 1, binStepU128 = 1844674407370955, filterPeriod = 10,
            decayPeriod = 120, reductionFactor = 5000,
            maxVolatilityAccumulator = 14460000, variableFeeControl = 956\<rparr>"
    unfolding getDynamicFeeParams_def
    by (simp add: root q64 bind_err_def bn_div_def bn_tdiv_def bn_toNumber_def
        bpsToFeeNumerator_def MAX_PRICE_CHANGE_BPS_DEFAULT_def ONE_Q64_def
        BIN_STEP_BPS_U128_DEFAULT_def BASIS_POINT_MAX_def BIN_STEP_BPS_DEFAULT_def
        FEE_DENOMINATOR_def DYNAMIC_FEE_FILTER_PERIOD_DEFAULT_def
        DYNAMIC_FEE_DECAY_PERIOD_DEFAULT_def DYNAMIC_FEE_REDUCTION_FACTOR_DEFAULT_def)
  have nonneg: "(0::int) \<le> 100" by simp
  from getDynamicFeeParams_surcharge_bound [OF run nonneg] run show ?thesis by simp
qed

text \<open>
  C8: whenever \<open>buildCurve\<close> returns, its curve is the closed-form first segment, which
  ends at the migration price, followed by a final segment that ends at \<open>MAX_SQRT_PRICE\<close>
  and whose liquidity \<open>getInitialLiquidityFromDeltaBase\<close> solves from the remainder, the
  total supply minus the supply reconstructed from the first segment; when the solved
  liquidity is zero, no segment is appended.
\<close>

theorem buildCurve_last_segment:
  assumes "buildCurve K totalSupply migrateSqrtPrice migrationQuoteAmountInLamport threshold
             lockedVesting migrationOption totalLeftover migrationFeePercent = Inr cfg"
  shows "\<exists>migrationBaseAmount firstLiquidity first totalDynamicSupply lastLiquidity.
           getMigrationBaseToken K migrationQuoteAmountInLamport migrateSqrtPrice migrationOption
             = Inr migrationBaseAmount
         \<and> getFirstCurve K migrateSqrtPrice migrationBaseAmount
              (totalSupply - migrationBaseAmount - getTotalVestingAmount lockedVesting
                 - totalLeftover) threshold migrationFeePercent = Inr first
         \<and> curve first = [\<lparr>sqrtPrice = migrateSqrtPrice, liquidity = firstLiquidity\<rparr>]
         \<and> sqrtStartPrice cfg = sqrtStartPrice first
         \<and> getTotalSupplyFromCurve K threshold (sqrtStartPrice first) (curve first) lockedVesting
              migrationOption totalLeftover migrationFeePercent = Inr totalDynamicSupply
         \<and> getInitialLiquidityFromDeltaBase K (totalSupply - totalDynamicSupply) MAX_SQRT_PRICE
              migrateSqrtPrice = Inr lastLiquidity
         \<and> curve cfg =
             (if lastLiquidity = 0 then curve first
              else curve first @ [\<lparr>sqrtPrice = MAX_SQRT_PRICE, liquidity = lastLiquidity\<rparr>])"
proof -
  have first: "\<And>b s first. getFirstCurve K migrateSqrtPrice b s threshold migrationFeePercent = Inr first
     \<Longrightarrow> \<exists>l. curve first = [\<lparr>sqrtPrice = migrateSqrtPrice, liquidity = l\<rparr>]"
    by (auto simp: getFirstCurve_def Let_def bind_err_Inr)
  from assms show ?thesis
    unfolding buildCurve_def
    by (auto simp: bind_err_Inr Let_def dest: first)
qed

theorem buildCurve_last_segment_witness:
  "buildCurve curveMath 1000000000000000 329985389698847588 64000000000 64000000000 noVesting
     MET_DAMM_V2 10000000000 (Fin False 0 0)
   = Inr \<lparr>sqrtStartPrice = 82497379983738238,
       curve = [\<lparr>sqrtPrice = 329985389698847588, liquidity = 87996471053322678127894993002812\<rparr>,
                \<lparr>sqrtPrice = 79226673521066979257578248091, liquidity = 3434896127926969785642391\<rparr>],
       migrationQuoteThreshold = 64000000000\<rparr>
   \<and> (\<exists>totalDynamicSupply.
         getTotalSupplyFromCurve curveMath 64000000000 82497379983738238
           [\<lparr>sqrtPrice = 329985389698847588, liquidity = 87996471053322678127894993002812\<rparr>]
           noVesting MET_DAMM_V2 10000000000 (Fin False 0 0) = Inr totalDynamicSupply
       \<and> getInitialLiquidityFromDeltaBase curveMath (1000000000000000 - totalDynamicSupply)
           MAX_SQRT_PRICE 329985389698847588 = Inr 3434896127926969785642391)"
proof -
  note last_segment =
    buildCurve_last_segment [OF buildCurve_run, unfolded CurveShape.select_convs]
  from last_segment obtain firstLiquidity first totalDynamicSupply lastLiquidity where
    first: "curve (first :: CurveShape)
        = [\<lparr>sqrtPrice = 329985389698847588, liquidity = firstLiquidity\<rparr>]"
      "82497379983738238 = sqrtStartPrice first"
    and reconstructed: "getTotalSupplyFromCurve curveMath 64000000000 (sqrtStartPrice first) (curve first)
        noVesting MET_DAMM_V2 10000000000 (Fin False 0 0) = Inr totalDynamicSupply"
    and last: "getInitialLiquidityFromDeltaBase curveMath (1000000000000000 - totalDynamicSupply)
        MAX_SQRT_PRICE 329985389698847588 = Inr lastLiquidity"
    and segments:
      "[\<lparr>sqrtPrice = 329985389698847588, liquidity = 87996471053322678127894993002812\<rparr>,
        \<lparr>sqrtPrice = 79226673521066979257578248091, liquidity = 3434896127926969785642391\<rparr>]
       = (if lastLiquidity = 0 then curve first
          else curve first @ [\<lparr>sqrtPrice = MAX_SQRT_PRICE, liquidity = lastLiquidity\<rparr>])"
    by blast
  from segments first(1) have "firstLiquidity = 87996471053322678127894993002812"
    and "lastLiquidity = 3434896127926969785642391"
    by (auto split: if_splits)
  with first reconstructed last show ?thesis
    by (auto simp: buildCurve_run)
qed

text \<open>
  C2: \<open>getTwoCurve\<close> returns the failure value, with \<open>isOk\<close> false and an empty curve,
  exactly when one of the two solved liquidity values is negative.  Whenever
  \<open>buildCurveWithTwoSegments\<close> returns, the start price and the curve of its configuration
  are those that \<open>getTwoCurve\<close> returns for the first of the three candidate mid prices,
  in the order in which they are tried, whose solved liquidity values are not negative;
  every candidate before it is skipped.
\<close>

theorem two_segment_candidates:
  "(getTwoCurve migrateSqrtPrice midSqrtPrice initialSqrtPrice swapAmount threshold
      = Inr \<lparr>sqrtStartPrice = 0, curve = [], isOk = False\<rparr>)
   = infeasible migrateSqrtPrice midSqrtPrice initialSqrtPrice swapAmount threshold
   \<and> (buildCurveWithTwoSegments K pw totalSupply migrateSqrtPrice initialSqrtPrice
         migrationQuoteAmountInLamport threshold lockedVesting migrationOption totalLeftover
         migrationFeePercent = Inr cfg
       \<longrightarrow> (\<exists>migrationBaseAmount swap m3 m2 m1.
             getMigrationBaseToken K migrationQuoteAmountInLamport migrateSqrtPrice
               migrationOption = Inr migrationBaseAmount
           \<and> swap = totalSupply - migrationBaseAmount - getTotalVestingAmount lockedVesting
                      - totalLeftover
           \<and> midSqrtPrices pw migrateSqrtPrice initialSqrtPrice = Inr [m3, m2, m1]
           \<and> (if \<not> infeasible migrateSqrtPrice m3 initialSqrtPrice swap threshold then
                 getTwoCurve migrateSqrtPrice m3 initialSqrtPrice swap threshold
                   = Inr \<lparr>sqrtStartPrice = sqrtStartPrice cfg, curve = curve cfg, isOk = True\<rparr>
               else if \<not> infeasible migrateSqrtPrice m2 initialSqrtPrice swap threshold then
                 getTwoCurve migrateSqrtPrice m2 initialSqrtPrice swap threshold
                   = Inr \<lparr>sqrtStartPrice = sqrtStartPrice cfg, curve = curve cfg, isOk = True\<rparr>
               else \<not> infeasible migrateSqrtPrice m1 initialSqrtPrice swap threshold \<and>
                 getTwoCurve migrateSqrtPrice m1 initialSqrtPrice swap threshold
                   = Inr \<lparr>sqrtStartPrice = sqrtStartPrice cfg, curve = curve cfg, isOk = True\<rparr>)))"
proof (intro conjI impI)
  show "(getTwoCurve migrateSqrtPrice midSqrtPrice initialSqrtPrice swapAmount threshold
      = Inr \<lparr>sqrtStartPrice = 0, curve = [], isOk = False\<rparr>)
   = infeasible migrateSqrtPrice midSqrtPrice initialSqrtPrice swapAmount threshold"
    by (rule getTwoCurve_failed_iff)
next
  assume build: "buildCurveWithTwoSegments K pw totalSupply migrateSqrtPrice initialSqrtPrice
         migrationQuoteAmountInLamport threshold lockedVesting migrationOption totalLeftover
         migrationFeePercent = Inr cfg"
  define swapOf where
    "swapOf b = totalSupply - b - getTotalVestingAmount lockedVesting - totalLeftover" for b
  from build obtain b mids shape dyn where
    b: "getMigrationBaseToken K migrationQuoteAmountInLamport migrateSqrtPrice migrationOption = Inr b"
    and mids: "midSqrtPrices pw migrateSqrtPrice initialSqrtPrice = Inr mids"
    and shape: "tryMidPrices migrateSqrtPrice initialSqrtPrice (swapOf b) threshold mids = Inr shape"
    and dyn: "getTotalSupplyFromCurve K threshold (sqrtStartPrice shape) (curve shape)
                lockedVesting migrationOption totalLeftover migrationFeePercent = Inr dyn"
    and cfg: "sqrtStartPrice cfg = sqrtStartPrice shape" "curve cfg = curve shape"
    unfolding buildCurveWithTwoSegments_def swapOf_def
    by (auto simp: bind_err_Inr Let_def split: if_splits)
  from midSqrtPrices_three [OF mids] obtain m3 m2 m1 where m: "mids = [m3, m2, m1]" by blast
  have nonempty: "curve shape \<noteq> []"
    using dyn by (auto simp: getTotalSupplyFromCurve_empty)
  note sel = tryMidPrices_three [OF shape [unfolded m] nonempty, folded cfg]
  show "\<exists>migrationBaseAmount swap m3 m2 m1.
             getMigrationBaseToken K migrationQuoteAmountInLamport migrateSqrtPrice
               migrationOption = Inr migrationBaseAmount
           \<and> swap = totalSupply - migrationBaseAmount - getTotalVestingAmount lockedVesting
                      - totalLeftover
           \<and> midSqrtPrices pw migrateSqrtPrice initialSqrtPrice = Inr [m3, m2, m1]
           \<and> (if \<not> infeasible migrateSqrtPrice m3 initialSqrtPrice swap threshold then
                 getTwoCurve migrateSqrtPrice m3 initialSqrtPrice swap threshold
                   = Inr \<lparr>sqrtStartPrice = sqrtStartPrice cfg, curve = curve cfg, isOk = True\<rparr>
               else if \<not> infeasible migrateSqrtPrice m2 initialSqrtPrice swap threshold then
                 getTwoCurve migrateSqrtPrice m2 initialSqrtPrice swap threshold
                   = Inr \<lparr>sqrtStartPrice = sqrtStartPrice cfg, curve = curve cfg, isOk = True\<rparr>
               else \<not> infeasible migrateSqrtPrice m1 initialSqrtPrice swap threshold \<and>
                 getTwoCurve migrateSqrtPrice m1 initialSqrtPrice swap threshold
                   = Inr \<lparr>sqrtStartPrice = sqrtStartPrice cfg, curve = curve cfg, isOk = True\<rparr>)"
    apply (rule exI [of _ b], rule exI [of _ "swapOf b"], rule exI [of _ m3],
           rule exI [of _ m2], rule exI [of _ m1])
    using b mids m sel by (simp add: swapOf_def)
qed

theorem two_segment_candidates_witness:
  "buildCurveWithTwoSegments curveMath samplePow 1000000000000 7378697629483820646
     1844674407370955161 48000000000 50526315789 noVesting MET_DAMM_V2 0 (Fin False 5 0)
   = Inr \<lparr>sqrtStartPrice = 1844674407370955161,
       curve = [\<lparr>sqrtPrice = 5217527130133112884, liquidity = 964146674894650972320000000000\<rparr>,
                \<lparr>sqrtPrice = 7378697629483820646, liquidity = 6450805059158292982800000000000\<rparr>],
       migrationQuoteThreshold = 50526315789\<rparr>
   \<and> midSqrtPrices samplePow 7378697629483820646 1844674407370955161
       = Inr [2608763565066556441, 5217527130133112884, 3689348814741910322]
   \<and> infeasible 7378697629483820646 2608763565066556441 1844674407370955161 699999999853
       50526315789
   \<and> getTwoCurve 7378697629483820646 2608763565066556441 1844674407370955161 699999999853
       50526315789 = Inr \<lparr>sqrtStartPrice = 0, curve = [], isOk = False\<rparr>
   \<and> \<not> infeasible 7378697629483820646 5217527130133112884 1844674407370955161 699999999853
         50526315789
   \<and> getTwoCurve 7378697629483820646 5217527130133112884 1844674407370955161 699999999853
       50526315789
       = Inr \<lparr>sqrtStartPrice = 1844674407370955161,
           curve = [\<lparr>sqrtPrice = 5217527130133112884, liquidity = 964146674894650972320000000000\<rparr>,
                    \<lparr>sqrtPrice = 7378697629483820646, liquidity = 6450805059158292982800000000000\<rparr>],
           isOk = True\<rparr>"
proof -
  have first: "infeasible 7378697629483820646 2608763565066556441 1844674407370955161
      699999999853 50526315789"
    by (simp add: twoSegments_first_l0)
  have second: "\<not> infeasible 7378697629483820646 5217527130133112884 1844674407370955161
      699999999853 50526315789"
    by (simp add: twoSegments_second_l0 twoSegments_second_l1)
  note candidates = two_segment_candidates [where K = curveMath and pw = samplePow
      and totalSupply = 1000000000000 and migrateSqrtPrice = 7378697629483820646
      and initialSqrtPrice = 1844674407370955161
      and migrationQuoteAmountInLamport = 48000000000 and threshold = 50526315789
      and lockedVesting = noVesting and migrationOption = MET_DAMM_V2 and totalLeftover = 0
      and migrationFeePercent = "Fin False 5 0"
      and midSqrtPrice = 2608763565066556441 and swapAmount = 699999999853
      and cfg = "\<lparr>sqrtStartPrice = 1844674407370955161,
       curve = [\<lparr>sqrtPrice = 5217527130133112884, liquidity = 964146674894650972320000000000\<rparr>,
                \<lparr>sqrtPrice = 7378697629483820646, liquidity = 6450805059158292982800000000000\<rparr>],
       migrationQuoteThreshold = 50526315789\<rparr>"]
  from candidates first
  have skipped: "getTwoCurve 7378697629483820646 2608763565066556441 1844674407370955161
      699999999853 50526315789 = Inr \<lparr>sqrtStartPrice = 0, curve = [], isOk = False\<rparr>"
    by blast
  note adopted_candidate =
    candidates [THEN conjunct2, THEN mp, OF twoSegments_run, unfolded CurveShape.select_convs]
  from adopted_candidate obtain b swap m3 m2 m1 where
    b: "getMigrationBaseToken curveMath 48000000000 7378697629483820646 MET_DAMM_V2 = Inr b"
    and swap: "swap = 1000000000000 - b - getTotalVestingAmount noVesting - 0"
    and mids: "midSqrtPrices samplePow 7378697629483820646 1844674407370955161 = Inr [m3, m2, m1]"
    and sel: "if \<not> infeasible 7378697629483820646 m3 1844674407370955161 swap 50526315789 then
                 getTwoCurve 7378697629483820646 m3 1844674407370955161 swap 50526315789
                   = Inr \<lparr>sqrtStartPrice = 1844674407370955161,
                       curve = [\<lparr>sqrtPrice = 5217527130133112884, liquidity = 964146674894650972320000000000\<rparr>,
                                \<lparr>sqrtPrice = 7378697629483820646, liquidity = 6450805059158292982800000000000\<rparr>],
                       isOk = True\<rparr>
               else if \<not> infeasible 7378697629483820646 m2 1844674407370955161 swap 50526315789 then
                 getTwoCurve 7378697629483820646 m2 1844674407370955161 swap 50526315789
                   = Inr \<lparr>sqrtStartPrice = 1844674407370955161,
                       curve = [\<lparr>sqrtPrice = 5217527130133112884, liquidity = 964146674894650972320000000000\<rparr>,
                                \<lparr>sqrtPrice = 7378697629483820646, liquidity = 6450805059158292982800000000000\<rparr>],
                       isOk = True\<rparr>
               else \<not> infeasible 7378697629483820646 m1 1844674407370955161 swap 50526315789 \<and>
                 getTwoCurve 7378697629483820646 m1 1844674407370955161 swap 50526315789
                   = Inr \<lparr>sqrtStartPrice = 1844674407370955161,
                       curve = [\<lparr>sqrtPrice = 5217527130133112884, liquidity = 964146674894650972320000000000\<rparr>,
                                \<lparr>sqrtPrice = 7378697629483820646, liquidity = 6450805059158292982800000000000\<rparr>],
                       isOk = True\<rparr>"
    by blast
  from b have "b = 300000000147" by (simp add: twoSegments_migrationBase)
  with swap have swap': "swap = 699999999853" by (simp add: getTotalVestingAmount_noVesting)
  from mids have m: "m3 = 2608763565066556441" "m2 = 5217527130133112884"
    by (simp_all add: twoSegments_midPrices)
  from sel first second have adopted:
    "getTwoCurve 7378697629483820646 5217527130133112884 1844674407370955161 699999999853
       50526315789
       = Inr \<lparr>sqrtStartPrice = 1844674407370955161,
           curve = [\<lparr>sqrtPrice = 5217527130133112884, liquidity = 964146674894650972320000000000\<rparr>,
                    \<lparr>sqrtPrice = 7378697629483820646, liquidity = 6450805059158292982800000000000\<rparr>],
           isOk = True\<rparr>"
    unfolding swap' m by simp
  from twoSegments_run twoSegments_midPrices first skipped second adopted show ?thesis
    by (intro conjI)
qed




text \<open>
  C6: converting a price to a square-root price and back is meant to return the price to
  within the precision of the Q64.64 representation.  The conversions compute with 20
  significant decimal digits, which a Q64.64 value above \<open>10 ^ 20\<close> exceeds.  For the
  price 12345678901 between tokens of equal decimals, \<open>getSqrtPriceFromPrice\<close> returns
  2049638221169328781000000, which is 106216 units above the integer square root of
  \<open>12345678901 * 2 ^ 128\<close>, and \<open>getPriceFromSqrtPrice\<close> returns 12345678901.000000001
  for it; the error of \<open>10 ^ -9\<close> is more than the difference that one unit of the
  square-root price makes to the price.
\<close>

theorem price_round_trip_exceeds_Q64_precision:
  "getSqrtPriceFromPrice (Fin False 12345678901 0) (Fin False 1 0)
     = Inr 2049638221169328781000000
   \<and> (2049638221169328780893784 :: int) ^ 2 \<le> 12345678901 * 2 ^ 128
   \<and> 12345678901 * 2 ^ 128 < (2049638221169328780893784 + 1 :: int) ^ 2
   \<and> (2049638221169328781000000 :: int) - 2049638221169328780893784 = 106216
   \<and> getPriceFromSqrtPrice 2049638221169328781000000 SIX SIX
     = Fin False 12345678901000000001 (- 9)
   \<and> Decimal_toRat (Fin False 12345678901000000001 (- 9)) - 12345678901 = 1 / 10 ^ 9
   \<and> (2 * 2049638221169328781000000 + 1) / 2 ^ 128 < (1 / 10 ^ 9 :: rat)"
proof -
  have toSqrt: "getSqrtPriceFromPrice (Fin False 12345678901 0) (Fin False 1 0)
     = Inr 2049638221169328781000000"
    by (simp add: getSqrtPriceFromPrice_def Let_def Decimal_eval cong: Let_weak_cong)
  have toPrice: "getPriceFromSqrtPrice 2049638221169328781000000 SIX SIX
     = Fin False 12345678901000000001 (- 9)"
    by (simp add: getPriceFromSqrtPrice_def Let_def Decimal_eval cong: Let_weak_cong)
  have error: "Decimal_toRat (Fin False 12345678901000000001 (- 9)) - 12345678901 = 1 / 10 ^ 9"
    by (simp add: Decimal_toRat.simps)
  have step: "(2 * 2049638221169328781000000 + 1) / 2 ^ 128 < (1 / 10 ^ 9 :: rat)"
    by (simp add: field_simps)
  from toSqrt toPrice error step show ?thesis by simp
qed

end
